theory Spec2Isabelle
  imports Main
begin

section \<open>Ally speech service: data model\<close>

text \<open>
  The development embeds \<^verbatim>\<open>speech-service/speech_service.py\<close> (class
  \<^verbatim>\<open>SpeechService\<close>) and the message handler of
  \<^verbatim>\<open>speech-service/minimal_service.py\<close> (class \<^verbatim>\<open>MinimalSpeechService\<close>).

  A Python \<^verbatim>\<open>str\<close> is a sequence of code points, and \<^verbatim>\<open>len\<close> counts code points,
  so a string is a list of natural numbers. \<open>str\<close> turns an ASCII literal into that form.
\<close>

type_synonym pystr = "nat list"

definition str :: "string \<Rightarrow> pystr" where
  "str s = map of_char s"

text \<open>A connection handle (the \<^verbatim>\<open>websocket\<close> object) and an audio payload.\<close>

type_synonym ws = nat
type_synonym audio = "nat list"

text \<open>A dictionary key that a payload may or may not carry.\<close>

datatype 'a key = NoKey | Key 'a

text \<open>
  The payload of an inbound message, with its fields at the types the protocol gives them;
  \<open>None\<close> is an absent key (\<^verbatim>\<open>payload.get('text', '')\<close>, \<^verbatim>\<open>payload.get('messageId')\<close>,
  \<^verbatim>\<open>payload.get('streaming', False)\<close> supply the defaults).
\<close>

record payload =
  p_text :: "pystr option"
  p_messageId :: "pystr option"
  p_streaming :: "bool option"

text \<open>
  What \<^verbatim>\<open>json.loads(message)\<close> gives: it raises \<^verbatim>\<open>JSONDecodeError\<close> (\<open>InvalidJson\<close>), or
  returns a value that is not a dictionary, on which \<^verbatim>\<open>data.get\<close> raises
  \<^verbatim>\<open>AttributeError\<close> (\<open>NotDict\<close>), or returns a dictionary with an optional
  \<^verbatim>\<open>command\<close> and an optional \<^verbatim>\<open>payload\<close>, which is itself a dictionary or not; a
  payload that is not a dictionary is recorded with the name of its Python type
  (\<^verbatim>\<open>int\<close>, \<^verbatim>\<open>str\<close>, \<^verbatim>\<open>list\<close>, \<^verbatim>\<open>NoneType\<close>, ...), which the text of the
  \<^verbatim>\<open>AttributeError\<close> of \<^verbatim>\<open>payload.get\<close> names.
\<close>

datatype payload_field = PayloadAbsent | PayloadNotDict pystr | Payload payload

datatype inbound = InvalidJson | NotDict | Data "pystr option" payload_field

text \<open>The status dictionary of \<^verbatim>\<open>get_status\<close>.\<close>

record status =
  st_listening :: bool
  st_device :: string
  st_models_loaded :: bool
  st_tts_queue_size :: nat
  st_is_processing_tts :: bool
  st_current_tts_id :: "pystr option"

text \<open>
  Outbound events: the \<^verbatim>\<open>command\<close> of \<^verbatim>\<open>_send_response\<close> with the fields of its
  payload, in the order the source writes them. The \<^verbatim>\<open>timestamp\<close> is the wall clock and is
  left out.
\<close>

datatype event =
    Connected
  | ListeningStarted
  | ListeningStopped
  | Status status
  | SpeechGenerated audio pystr "pystr option"
  | SpeechError pystr "pystr option key"
  | TtsStopped pystr
  | TtsStreamStart nat pystr "pystr option"
  | TtsStreamChunk audio pystr nat nat bool "pystr option"
  | TtsStreamComplete pystr nat "pystr option"
  | TtsStreamError pystr "pystr option"
  | GgwaveSent bool pystr
  | GgwaveError pystr
  | Error pystr
  | MinimalStatus

type_synonym outbox = "(ws \<times> event) list"

text \<open>A queued synthesis request (\<^verbatim>\<open>tts_request\<close>; its \<^verbatim>\<open>timestamp\<close> is never read).\<close>

record request =
  websocket :: ws
  tts_text :: pystr
  message_id :: "pystr option"
  streaming :: bool

text \<open>
  The fields of \<^verbatim>\<open>SpeechService\<close> that the handlers read and write. The two models are
  recorded as loaded or not (\<^verbatim>\<open>self.tts_model\<close> is \<^verbatim>\<open>None\<close> when loading failed).
  \<open>last_message_data\<close> is the attribute \<^verbatim>\<open>_last_message_data\<close> the handler stores on each
  websocket object.
\<close>

record service =
  running :: bool
  device :: string
  whisper_model :: bool
  tts_model :: bool
  tts_queue :: "request list"
  is_processing_tts :: bool
  current_tts_id :: "pystr option"
  last_message_data :: "ws \<Rightarrow> payload_field option"

section \<open>Bounded queues\<close>

text \<open>
  \<^verbatim>\<open>queue.Queue(maxsize).put_nowait\<close>: raises \<^verbatim>\<open>queue.Full\<close> when the queue already
  holds \<open>maxsize\<close> items (a \<open>maxsize\<close> of 0 is unbounded), else appends at the back.
\<close>

datatype queue_error = Full | Empty

definition put_nowait :: "nat \<Rightarrow> 'a list \<Rightarrow> 'a \<Rightarrow> queue_error + 'a list" where
  "put_nowait maxsize q x =
     (if 0 < maxsize \<and> maxsize \<le> length q then Inl Full else Inr (q @ [x]))"

definition get_nowait :: "'a list \<Rightarrow> queue_error + ('a \<times> 'a list)" where
  "get_nowait q = (case q of [] \<Rightarrow> Inl Empty | x # r \<Rightarrow> Inr (x, r))"

text \<open>\<^verbatim>\<open>self.tts_queue = queue.Queue(maxsize=10)\<close>, \<^verbatim>\<open>self.audio_queue = queue.Queue(maxsize=5)\<close>.\<close>

definition tts_queue_maxsize :: nat where
  "tts_queue_maxsize = 10"

definition audio_queue_maxsize :: nat where
  "audio_queue_maxsize = 5"

section \<open>Session controller\<close>

text \<open>
  A handler returns the responses it sent, the service after it, and whether it called
  \<^verbatim>\<open>asyncio.create_task(self._process_tts_queue())\<close>.
\<close>

type_synonym handled = "outbox \<times> service \<times> bool"

definition send_response :: "ws \<Rightarrow> event \<Rightarrow> outbox" where
  "send_response w e = [(w, e)]"

text \<open>
  \<^verbatim>\<open>str(e)\<close> for the \<^verbatim>\<open>AttributeError\<close> that \<^verbatim>\<open>get\<close> raises on a value of the type named
  \<open>ty\<close>: \<^verbatim>\<open>'ty' object has no attribute 'get'\<close> (39 is the single quote).
\<close>

definition no_get :: "pystr \<Rightarrow> pystr" where
  "no_get ty =
     [39] @ ty @ [39] @ str '' object has no attribute '' @ [39] @ str ''get'' @ [39]"

text \<open>
  \<^verbatim>\<open>_handle_tts_request\<close>. Inside its \<^verbatim>\<open>try\<close> block the streaming flag is read from the
  payload stored on the websocket when there is one, else from \<^verbatim>\<open>{'text': text}\<close>, which
  has no such key. \<open>stored_streaming\<close> is that read: the flag (\<open>Inr\<close>), or the text of the
  \<^verbatim>\<open>AttributeError\<close> raised when the stored payload is not a dictionary (\<open>Inl\<close>). The outer
  \<^verbatim>\<open>except Exception\<close> answers the exception with \<^verbatim>\<open>speech_error\<close> and nothing is enqueued;
  the inner \<^verbatim>\<open>except queue.Full\<close> answers a full queue.
\<close>

definition stored_streaming :: "service \<Rightarrow> ws \<Rightarrow> pystr + bool" where
  "stored_streaming s w =
     (case last_message_data s w of
        None \<Rightarrow> Inr False
      | Some PayloadAbsent \<Rightarrow> Inr False
      | Some (PayloadNotDict ty) \<Rightarrow> Inl (no_get ty)
      | Some (Payload p) \<Rightarrow> Inr (case p_streaming p of None \<Rightarrow> False | Some b \<Rightarrow> b))"

definition handle_tts_request :: "service \<Rightarrow> ws \<Rightarrow> pystr \<Rightarrow> pystr option \<Rightarrow> handled" where
  "handle_tts_request s w txt mid =
     (if \<not> tts_model s
      then (send_response w (SpeechError (str ''TTS model not loaded'') NoKey), s, False)
      else
        case stored_streaming s w of
          Inl e \<Rightarrow> (send_response w (SpeechError e NoKey), s, False)
        | Inr flag \<Rightarrow>
            let tts_request = \<lparr>websocket = w, tts_text = txt, message_id = mid,
                                streaming = flag\<rparr>
            in case put_nowait tts_queue_maxsize (tts_queue s) tts_request of
                 Inr q \<Rightarrow> ([], s\<lparr>tts_queue := q\<rparr>, True)
               | Inl _ \<Rightarrow>
                   (send_response w
                      (SpeechError (str ''TTS queue full, please try again later'') NoKey),
                    s, False))"

text \<open>
  \<^verbatim>\<open>_handle_stop_tts\<close>. \<open>drain\<close> is its loop
  \<^verbatim>\<open>while not self.tts_queue.empty(): self.tts_queue.get_nowait()\<close>, which removes the
  front item until none is left.
\<close>

fun drain :: "'a list \<Rightarrow> 'a list" where
  "drain [] = []"
| "drain (x # q) = drain q"

definition handle_stop_tts :: "service \<Rightarrow> ws \<Rightarrow> handled" where
  "handle_stop_tts s w =
     (if is_processing_tts s
      then (send_response w (TtsStopped (str ''TTS processing stopped'')),
            s\<lparr>tts_queue := drain (tts_queue s),
              is_processing_tts := False,
              current_tts_id := None\<rparr>,
            False)
      else (send_response w (TtsStopped (str ''No TTS currently processing'')), s, False))"

text \<open>
  \<^verbatim>\<open>_handle_ggwave_request\<close>. The modem routine \<^verbatim>\<open>_send_ggwave\<close> is a collaborator: it
  returns its success flag (\<open>Inr\<close>), and an exception of the executor call is \<open>Inl\<close> with
  its text.
\<close>

type_synonym modem = "pystr \<Rightarrow> pystr + bool"

definition handle_ggwave_request :: "modem \<Rightarrow> service \<Rightarrow> ws \<Rightarrow> pystr \<Rightarrow> handled" where
  "handle_ggwave_request send_ggwave s w txt =
     (case send_ggwave txt of
        Inr success \<Rightarrow> (send_response w (GgwaveSent success txt), s, False)
      | Inl e \<Rightarrow> (send_response w (GgwaveError e), s, False))"

text \<open>
  \<^verbatim>\<open>SpeechService._handle_websocket_message\<close>. Both \<^verbatim>\<open>except\<close> clauses only log, so a
  message that raises (\<open>InvalidJson\<close>, \<open>NotDict\<close>, a payload without \<^verbatim>\<open>get\<close>) sends
  nothing; the \<^verbatim>\<open>if\<close>/\<^verbatim>\<open>elif\<close> chain has no \<^verbatim>\<open>else\<close>.
\<close>

definition get_status :: "service \<Rightarrow> status" where
  "get_status s =
     \<lparr>st_listening = running s,
      st_device = device s,
      st_models_loaded = (whisper_model s \<and> tts_model s),
      st_tts_queue_size = length (tts_queue s),
      st_is_processing_tts = is_processing_tts s,
      st_current_tts_id = current_tts_id s\<rparr>"

definition handle_websocket_message :: "modem \<Rightarrow> service \<Rightarrow> ws \<Rightarrow> inbound \<Rightarrow> handled" where
  "handle_websocket_message send_ggwave s w message =
     (case message of
        InvalidJson \<Rightarrow> ([], s, False)
      | NotDict \<Rightarrow> ([], s, False)
      | Data command pl \<Rightarrow>
          let s1 = s\<lparr>last_message_data := (last_message_data s)(w := Some pl)\<rparr> in
          if command = Some (str ''start_listening'')
          then (send_response w ListeningStarted, s1, False)
          else if command = Some (str ''stop_listening'')
          then (send_response w ListeningStopped, s1, False)
          else if command = Some (str ''synthesize_speech'')
          then (case pl of
                  PayloadNotDict ty \<Rightarrow> ([], s1, False)
                | PayloadAbsent \<Rightarrow> ([], s1, False)
                | Payload p \<Rightarrow>
                    (case p_text p of
                       None \<Rightarrow> ([], s1, False)
                     | Some txt \<Rightarrow>
                         if txt \<noteq> [] then handle_tts_request s1 w txt (p_messageId p)
                         else ([], s1, False)))
          else if command = Some (str ''stop_tts'')
          then handle_stop_tts s1 w
          else if command = Some (str ''send_ggwave'')
          then (case pl of
                  PayloadNotDict ty \<Rightarrow> ([], s1, False)
                | PayloadAbsent \<Rightarrow> ([], s1, False)
                | Payload p \<Rightarrow>
                    (case p_text p of
                       None \<Rightarrow> ([], s1, False)
                     | Some txt \<Rightarrow>
                         if txt \<noteq> [] then handle_ggwave_request send_ggwave s1 w txt
                         else ([], s1, False)))
          else if command = Some (str ''get_status'')
          then (send_response w (Status (get_status s1)), s1, False)
          else ([], s1, False))"

text \<open>
  \<^verbatim>\<open>MinimalSpeechService._handle_websocket_message\<close>: no state, a final \<^verbatim>\<open>else\<close> for an
  unknown command, and an \<^verbatim>\<open>error\<close> response for invalid JSON. Any other exception leaves
  the function and \<^verbatim>\<open>handle_client\<close> answers it with \<^verbatim>\<open>error\<close> and the exception's
  text, here the parameter \<open>exn_text\<close>. A command that is absent prints as \<^verbatim>\<open>None\<close>.
\<close>

definition minimal_handle_websocket_message :: "pystr \<Rightarrow> ws \<Rightarrow> inbound \<Rightarrow> outbox" where
  "minimal_handle_websocket_message exn_text w message =
     (case message of
        InvalidJson \<Rightarrow> send_response w (Error (str ''Invalid JSON''))
      | NotDict \<Rightarrow> send_response w (Error exn_text)
      | Data command pl \<Rightarrow>
          if command = Some (str ''get_status'')
          then send_response w MinimalStatus
          else if command = Some (str ''start_listening'')
          then send_response w ListeningStarted
          else if command = Some (str ''stop_listening'')
          then send_response w ListeningStopped
          else if command = Some (str ''synthesize_speech'')
          then (case pl of
                  PayloadNotDict ty \<Rightarrow> send_response w (Error exn_text)
                | _ \<Rightarrow> send_response w
                         (SpeechError (str ''TTS not available in minimal service'') NoKey))
          else if command = Some (str ''send_ggwave'')
          then (case pl of
                  PayloadNotDict ty \<Rightarrow> send_response w (Error exn_text)
                | _ \<Rightarrow> send_response w
                         (GgwaveError (str ''ggwave not available in minimal service'')))
          else send_response w
                 (Error (str ''Unknown command: '' @
                         (case command of None \<Rightarrow> str ''None'' | Some c \<Rightarrow> c))))"

section \<open>Configuration\<close>

text \<open>
  The fields of \<^verbatim>\<open>SpeechConfig\<close> that the segmentation and the sentence splitter read,
  and the values the dataclass gives them (\<^verbatim>\<open>main\<close> overrides none of these).
\<close>

record config =
  silence_threshold :: nat
  max_speech_chunks :: nat
  min_speech_chunks :: nat
  max_sentence_length :: nat

definition SpeechConfig :: config where
  "SpeechConfig =
     \<lparr>silence_threshold = 2, max_speech_chunks = 100, min_speech_chunks = 10,
      max_sentence_length = 50\<rparr>"

section \<open>Segmentation buffer\<close>

text \<open>
  The state of the capture thread: \<^verbatim>\<open>speech_buffer\<close> (a deque of frames),
  \<^verbatim>\<open>silence_counter\<close>, and \<^verbatim>\<open>audio_queue\<close>, whose items are the joined bytes of an
  utterance. A frame is the byte string \<^verbatim>\<open>stream.read\<close> returns.
\<close>

type_synonym frame = "nat list"

record capture =
  speech_buffer :: "frame list"
  silence_counter :: nat
  audio_queue :: "nat list list"

text \<open>
  \<^verbatim>\<open>_process_speech_buffer\<close>. Beside the state it returns the frames it joined and
  queued, if it queued any: that list is the utterance handed to the recognition thread, and
  its length is the utterance's frame count.
\<close>

definition process_speech_buffer :: "config \<Rightarrow> capture \<Rightarrow> capture \<times> frame list option" where
  "process_speech_buffer cfg c =
     (if min_speech_chunks cfg \<le> length (speech_buffer c)
      then
        if silence_threshold cfg \<le> silence_counter c
           \<or> max_speech_chunks cfg \<le> length (speech_buffer c)
        then
          if length (audio_queue c) < 3
          then
            (case put_nowait audio_queue_maxsize (audio_queue c) (concat (speech_buffer c)) of
               Inr q \<Rightarrow> (c\<lparr>speech_buffer := [], audio_queue := q\<rparr>, Some (speech_buffer c))
             | Inl _ \<Rightarrow> (c\<lparr>speech_buffer := []\<rparr>, None))
          else (c\<lparr>speech_buffer := []\<rparr>, None)
        else (c, None)
      else (c, None))"

text \<open>
  One iteration of the loop of \<^verbatim>\<open>audio_capture\<close>, for the frame read and what
  \<^verbatim>\<open>self.vad.is_speech\<close> says about it. An exception of the read or of the classifier is
  logged and the iteration ends there.
\<close>

datatype vad_result = Speech | Silence | VadError

definition audio_capture_step ::
  "config \<Rightarrow> capture \<Rightarrow> frame \<Rightarrow> vad_result \<Rightarrow> capture \<times> frame list option" where
  "audio_capture_step cfg c data is_speech =
     (case is_speech of
        Speech \<Rightarrow> (c\<lparr>speech_buffer := speech_buffer c @ [data], silence_counter := 0\<rparr>, None)
      | Silence \<Rightarrow> process_speech_buffer cfg (c\<lparr>silence_counter := silence_counter c + 1\<rparr>)
      | VadError \<Rightarrow> (c, None))"

text \<open>
  The capture thread runs beside the recognition thread, which takes utterances off
  \<^verbatim>\<open>audio_queue\<close>. A run is a sequence of captured frames and of takes; \<open>audio_capture\<close>
  returns the utterances queued during the run, in order.
\<close>

datatype capture_event = Captured frame vad_result | Taken

fun audio_capture :: "config \<Rightarrow> capture \<Rightarrow> capture_event list \<Rightarrow> frame list list \<times> capture" where
  "audio_capture cfg c [] = ([], c)"
| "audio_capture cfg c (Captured data is_speech # es) =
     (let (c1, u) = audio_capture_step cfg c data is_speech;
          (us, c2) = audio_capture cfg c1 es
      in ((case u of None \<Rightarrow> us | Some x \<Rightarrow> x # us), c2))"
| "audio_capture cfg c (Taken # es) =
     audio_capture cfg
       (case get_nowait (audio_queue c) of
          Inl _ \<Rightarrow> c
        | Inr (_, q) \<Rightarrow> c\<lparr>audio_queue := q\<rparr>) es"

definition init_capture :: capture where
  "init_capture = \<lparr>speech_buffer = [], silence_counter = 0, audio_queue = []\<rparr>"

section \<open>Regular expressions\<close>

text \<open>
  The patterns of \<^verbatim>\<open>_split_into_sentences\<close> are sequences of single-character classes,
  each taken once, repeated greedily (\<^verbatim>\<open>*\<close>, \<^verbatim>\<open>{m,n}\<close>) or repeated lazily (\<^verbatim>\<open>*?\<close>),
  and look-behinds of one character. \<open>rmatch\<close> is the backtracking matcher of the \<^verbatim>\<open>re\<close>
  module on such sequences: it returns the first match in the order \<^verbatim>\<open>re\<close> tries them,
  as the text each item consumed and the rest of the input. \<open>prev\<close> is the character
  before the position, for the look-behind.

  \<open>is_space\<close> is \<^verbatim>\<open>\s\<close> on \<^verbatim>\<open>str\<close> patterns, and also the set \<^verbatim>\<open>str.strip()\<close> removes.
\<close>

definition is_space :: "nat \<Rightarrow> bool" where
  "is_space c =
     ((9 \<le> c \<and> c \<le> 13) \<or> (28 \<le> c \<and> c \<le> 32) \<or> c = 133 \<or> c = 160 \<or> c = 5760
      \<or> (8192 \<le> c \<and> c \<le> 8202) \<or> c = 8232 \<or> c = 8233 \<or> c = 8239 \<or> c = 8287
      \<or> c = 12288)"

definition strip :: "pystr \<Rightarrow> pystr" where
  "strip s = rev (dropWhile is_space (rev (dropWhile is_space s)))"

datatype cls = Lit nat | Space | Dot | DotAll | OneOf "nat list"

fun in_cls :: "cls \<Rightarrow> nat \<Rightarrow> bool" where
  "in_cls (Lit c) x = (x = c)"
| "in_cls Space x = is_space x"
| "in_cls Dot x = (x \<noteq> 10)"
| "in_cls DotAll x = True"
| "in_cls (OneOf cs) x = (x \<in> set cs)"

datatype item = One cls | Greedy cls | Lazy cls | Rep cls nat nat | Behind cls

type_synonym matched = "pystr list \<times> pystr"

fun took :: "nat \<Rightarrow> matched \<Rightarrow> matched" where
  "took x (g # gs, r) = ((x # g) # gs, r)"
| "took x ([], r) = ([[x]], r)"

fun took_none :: "matched \<Rightarrow> matched" where
  "took_none (gs, r) = ([] # gs, r)"

fun rmatch :: "item list \<Rightarrow> nat option \<Rightarrow> pystr \<Rightarrow> matched option" where
  "rmatch [] prev s = Some ([], s)"
| "rmatch (One c # p) prev [] = None"
| "rmatch (One c # p) prev (x # s) =
     (if in_cls c x then map_option (took x \<circ> took_none) (rmatch p (Some x) s) else None)"
| "rmatch (Behind c # p) prev s =
     (case prev of
        None \<Rightarrow> None
      | Some y \<Rightarrow> if in_cls c y then map_option took_none (rmatch p prev s) else None)"
| "rmatch (Greedy c # p) prev [] = map_option took_none (rmatch p prev [])"
| "rmatch (Greedy c # p) prev (x # s) =
     (if in_cls c x
      then (case rmatch (Greedy c # p) (Some x) s of
              Some m \<Rightarrow> Some (took x m)
            | None \<Rightarrow> map_option took_none (rmatch p prev (x # s)))
      else map_option took_none (rmatch p prev (x # s)))"
| "rmatch (Lazy c # p) prev [] = map_option took_none (rmatch p prev [])"
| "rmatch (Lazy c # p) prev (x # s) =
     (case rmatch p prev (x # s) of
        Some m \<Rightarrow> Some (took_none m)
      | None \<Rightarrow>
          if in_cls c x then map_option (took x) (rmatch (Lazy c # p) (Some x) s) else None)"
| "rmatch (Rep c lo hi # p) prev [] =
     (if lo = 0 then map_option took_none (rmatch p prev []) else None)"
| "rmatch (Rep c lo hi # p) prev (x # s) =
     (if 0 < hi \<and> in_cls c x
      then (case rmatch (Rep c (lo - 1) (hi - 1) # p) (Some x) s of
              Some m \<Rightarrow> Some (took x m)
            | None \<Rightarrow> if lo = 0 then map_option took_none (rmatch p prev (x # s)) else None)
      else if lo = 0 then map_option took_none (rmatch p prev (x # s)) else None)"

text \<open>The character before the position that follows a match.\<close>

definition prev_after :: "nat option \<Rightarrow> pystr list \<Rightarrow> nat option" where
  "prev_after prev gs = (if concat gs = [] then prev else Some (last (concat gs)))"

text \<open>
  \<^verbatim>\<open>re.sub\<close>: every match, leftmost first and not overlapping, is replaced by what
  \<open>repl\<close> makes of its groups. After an empty match the next character is copied.
\<close>

fun re_sub :: "item list \<Rightarrow> (pystr list \<Rightarrow> pystr) \<Rightarrow> nat option \<Rightarrow> pystr \<Rightarrow> pystr" where
  "re_sub p repl prev [] = (case rmatch p prev [] of Some (gs, r) \<Rightarrow> repl gs | None \<Rightarrow> [])"
| "re_sub p repl prev (x # s) =
     (case rmatch p prev (x # s) of
        None \<Rightarrow> x # re_sub p repl (Some x) s
      | Some (gs, r) \<Rightarrow>
          if length r < length (x # s)
          then repl gs @ re_sub p repl (prev_after prev gs) r
          else repl gs @ x # re_sub p repl (Some x) s)"

text \<open>
  \<^verbatim>\<open>re.split\<close> for a pattern without groups: the pieces between the matches. Both
  patterns split with need one whitespace character at least, so no match is empty.
\<close>

fun onto_first :: "nat \<Rightarrow> pystr list \<Rightarrow> pystr list" where
  "onto_first x [] = [[x]]"
| "onto_first x (piece # pieces) = (x # piece) # pieces"

fun re_split :: "item list \<Rightarrow> nat option \<Rightarrow> pystr \<Rightarrow> pystr list" where
  "re_split p prev [] = [[]]"
| "re_split p prev (x # s) =
     (case rmatch p prev (x # s) of
        None \<Rightarrow> onto_first x (re_split p (Some x) s)
      | Some (gs, r) \<Rightarrow>
          if length r < length (x # s)
          then [] # re_split p (prev_after prev gs) r
          else onto_first x (re_split p (Some x) s))"

section \<open>Sentence decomposition\<close>

text \<open>
  The patterns of \<^verbatim>\<open>_split_into_sentences\<close>. Code point 128173 is the thought-balloon
  sign that opens a thinking section, 10 is the newline, 42 the asterisk, 96 the backquote,
  35 the hash sign, 44 the comma. The two thinking patterns are compiled with
  \<^verbatim>\<open>re.DOTALL\<close>, so their \<^verbatim>\<open>.*?\<close> crosses newlines; the others are not.
\<close>

definition lits :: "pystr \<Rightarrow> item list" where
  "lits s = map (\<lambda>c. One (Lit c)) s"

definition thinking_re :: "pystr \<Rightarrow> item list" where
  "thinking_re heading =
     [One (Lit 128173), Greedy Space] @ lits heading @ [Greedy Space] @ lits [10, 10]
     @ [Lazy DotAll]
     @ lits ([10, 10] @ str ''---'' @ [10, 10] @ str ''**Answer:**'')
     @ [Greedy Space] @ lits [10, 10]"

definition bold_re :: "item list" where
  "bold_re = [One (Lit 42), One (Lit 42), Lazy Dot, One (Lit 42), One (Lit 42)]"

definition italic_re :: "item list" where
  "italic_re = [One (Lit 42), Lazy Dot, One (Lit 42)]"

definition code_re :: "item list" where
  "code_re = [One (Lit 96), Lazy Dot, One (Lit 96)]"

definition header_re :: "item list" where
  "header_re = [Rep (Lit 35) 1 6, Greedy Space, Greedy Dot]"

definition sentence_end_re :: "item list" where
  "sentence_end_re = [Behind (OneOf (str ''.!?'')), One Space, Greedy Space]"

definition comma_re :: "item list" where
  "comma_re = [Behind (Lit 44), One Space, Greedy Space]"

text \<open>The replacement \<^verbatim>\<open>r'\1'\<close>, for a pattern whose group is its item number \<open>i\<close>.\<close>

definition group :: "nat \<Rightarrow> pystr list \<Rightarrow> pystr" where
  "group i gs = (if i < length gs then gs ! i else [])"

definition remove_thinking :: "pystr \<Rightarrow> pystr" where
  "remove_thinking txt =
     re_sub (thinking_re (str ''**Thought Process:**'')) (\<lambda>gs. []) None
       (re_sub (thinking_re (str ''**Thinking...**'')) (\<lambda>gs. []) None txt)"

definition remove_markdown :: "pystr \<Rightarrow> pystr" where
  "remove_markdown txt =
     re_sub header_re (group 2) None
       (re_sub code_re (group 1) None
          (re_sub italic_re (group 1) None
             (re_sub bold_re (group 2) None txt)))"

text \<open>
  \<open>limit_length\<close> is the last \<^verbatim>\<open>if\<close> of the merging loop: a sentence longer than
  \<^verbatim>\<open>max_sentence_length\<close> is split after its commas. \<open>merge_sentences\<close> is the loop itself,
  on the sentences from index \<^verbatim>\<open>i\<close> on: a sentence shorter than 20 characters that has a
  successor is joined to it with a space and both are passed over.
\<close>

definition limit_length :: "config \<Rightarrow> pystr \<Rightarrow> pystr list" where
  "limit_length cfg current =
     (if max_sentence_length cfg < length current
      then re_split comma_re None current
      else [current])"

fun merge_sentences :: "config \<Rightarrow> pystr list \<Rightarrow> pystr list" where
  "merge_sentences cfg [] = []"
| "merge_sentences cfg [current] = limit_length cfg current"
| "merge_sentences cfg (current # next # rest) =
     (if length current < 20
      then limit_length cfg (current @ str '' '' @ next) @ merge_sentences cfg rest
      else limit_length cfg current @ merge_sentences cfg (next # rest))"

definition split_into_sentences :: "config \<Rightarrow> pystr \<Rightarrow> pystr list" where
  "split_into_sentences cfg txt =
     (let clean_text = remove_markdown (remove_thinking txt);
          sentences = re_split sentence_end_re None (strip clean_text);
          sentences = map strip
                        (filter (\<lambda>s. strip s \<noteq> [] \<and> 3 < length (strip s)) sentences)
      in merge_sentences cfg sentences)"

section \<open>Synthesis queue\<close>

text \<open>
  The handlers are coroutines of one event loop: between two suspensions nothing else runs.
  A driver task suspends where it awaits \<^verbatim>\<open>run_in_executor(None, self._generate_speech, ...)\<close>
  and where it awaits \<^verbatim>\<open>asyncio.sleep(0.1)\<close>; a response is sent without the task giving
  up the loop. A task is therefore in one of these places:
  \<^item> \<open>Created\<close>: \<^verbatim>\<open>create_task\<close> has been called and the body has not started;
  \<^item> \<open>SynthStream w txt mid sentences i\<close>: in \<^verbatim>\<open>_handle_streaming_tts\<close>, awaiting the
    speech of sentence \<open>i\<close>;
  \<^item> \<open>Sleeping w txt mid sentences i\<close>: in the pause after the chunk of sentence \<open>i\<close>;
  \<^item> \<open>SynthSingle w txt mid\<close>: in \<^verbatim>\<open>_handle_single_tts\<close>, awaiting the speech;
  \<^item> \<open>Finished\<close>: \<^verbatim>\<open>_process_tts_queue\<close> has returned.

  What the awaited synthesis gives: \<^verbatim>\<open>_generate_speech\<close> returns a file that exists and is
  read (\<open>Generated\<close>, with the bytes read), or it returns \<^verbatim>\<open>None\<close>, having caught and logged
  the failure of the synthesizer (\<open>GenFailed\<close>), or opening or reading the file raises
  (\<open>Raised\<close>, with the text of the exception). Removing the file after the response is
  taken to succeed.
\<close>

datatype task =
    Created
  | SynthStream ws pystr "pystr option" "pystr list" nat
  | Sleeping ws pystr "pystr option" "pystr list" nat
  | SynthSingle ws pystr "pystr option"
  | Finished

datatype outcome = Generated audio | GenFailed | Raised pystr

text \<open>The test \<^verbatim>\<open>not self.is_processing_tts or self.current_tts_id != message_id\<close>.\<close>

definition superseded :: "service \<Rightarrow> pystr option \<Rightarrow> bool" where
  "superseded s mid = (\<not> is_processing_tts s \<or> current_tts_id s \<noteq> mid)"

text \<open>
  A handler runs until it suspends (\<open>Some\<close> of the place) or returns (\<open>None\<close>).
  \<open>streaming_from\<close> is the \<^verbatim>\<open>for\<close> loop of \<^verbatim>\<open>_handle_streaming_tts\<close> from the top of
  iteration \<open>i\<close>, and past the loop the completion signal.
\<close>

function streaming_from ::
  "service \<Rightarrow> ws \<Rightarrow> pystr \<Rightarrow> pystr option \<Rightarrow> pystr list \<Rightarrow> nat \<Rightarrow> outbox \<times> task option" where
  "streaming_from s w txt mid sentences i =
     (if i < length sentences
      then
        if superseded s mid then ([], None)
        else if strip (sentences ! i) \<noteq> [] then ([], Some (SynthStream w txt mid sentences i))
        else streaming_from s w txt mid sentences (i + 1)
      else (send_response w (TtsStreamComplete txt (length sentences) mid), None))"
  by pat_completeness auto
termination
  by (relation "measure (\<lambda>(s, w, txt, mid, sentences, i). length sentences - i)") auto

definition handle_streaming_tts ::
  "config \<Rightarrow> service \<Rightarrow> ws \<Rightarrow> pystr \<Rightarrow> pystr option \<Rightarrow> outbox \<times> task option" where
  "handle_streaming_tts cfg s w txt mid =
     (if superseded s mid then ([], None)
      else
        let sentences = split_into_sentences cfg txt;
            (out, t) = streaming_from s w txt mid sentences 0
        in (send_response w (TtsStreamStart (length sentences) txt mid) @ out, t))"

text \<open>
  \<^verbatim>\<open>_handle_streaming_tts\<close> when the speech of sentence \<open>i\<close> arrives: the chunk is sent and
  the task pauses, or the failure is logged and the loop goes on with the next sentence, or
  the exception is answered with \<^verbatim>\<open>tts_stream_error\<close> and the handler returns.
\<close>

definition streaming_resume ::
  "service \<Rightarrow> ws \<Rightarrow> pystr \<Rightarrow> pystr option \<Rightarrow> pystr list \<Rightarrow> nat \<Rightarrow> outcome
   \<Rightarrow> outbox \<times> task option" where
  "streaming_resume s w txt mid sentences i oc =
     (case oc of
        Generated audio_data \<Rightarrow>
          (send_response w
             (TtsStreamChunk audio_data (strip (sentences ! i)) i (length sentences)
                (int i = int (length sentences) - 1) mid),
           Some (Sleeping w txt mid sentences i))
      | GenFailed \<Rightarrow> streaming_from s w txt mid sentences (i + 1)
      | Raised e \<Rightarrow> (send_response w (TtsStreamError e mid), None))"

definition handle_single_tts ::
  "service \<Rightarrow> ws \<Rightarrow> pystr \<Rightarrow> pystr option \<Rightarrow> outbox \<times> task option" where
  "handle_single_tts s w txt mid =
     (if superseded s mid then ([], None) else ([], Some (SynthSingle w txt mid)))"

definition single_resume :: "ws \<Rightarrow> pystr \<Rightarrow> pystr option \<Rightarrow> outcome \<Rightarrow> outbox \<times> task option" where
  "single_resume w txt mid oc =
     (case oc of
        Generated audio_data \<Rightarrow> (send_response w (SpeechGenerated audio_data txt mid), None)
      | GenFailed \<Rightarrow>
          (send_response w (SpeechError (str ''Failed to generate speech'') (Key mid)), None)
      | Raised e \<Rightarrow> (send_response w (SpeechError e (Key mid)), None))"

text \<open>
  \<open>process_loop\<close> is \<^verbatim>\<open>_process_tts_queue\<close> from the test of its \<^verbatim>\<open>while\<close> loop: it takes
  the front request, makes its id the current one and runs its handler; when the handler
  returns without suspending it tests the queue again, and when the queue is empty the
  \<^verbatim>\<open>finally\<close> clause resets the two flags.
\<close>

function process_loop :: "config \<Rightarrow> service \<Rightarrow> outbox \<times> service \<times> task" where
  "process_loop cfg s =
     (case tts_queue s of
        [] \<Rightarrow> ([], s\<lparr>is_processing_tts := False, current_tts_id := None\<rparr>, Finished)
      | tts_request # q \<Rightarrow>
          let s1 = s\<lparr>tts_queue := q, current_tts_id := message_id tts_request\<rparr>;
              (out, t) =
                (if streaming tts_request
                 then handle_streaming_tts cfg s1 (websocket tts_request)
                        (tts_text tts_request) (message_id tts_request)
                 else handle_single_tts s1 (websocket tts_request)
                        (tts_text tts_request) (message_id tts_request))
          in case t of
               Some t1 \<Rightarrow> (out, s1, t1)
             | None \<Rightarrow> (let (out2, s2, t2) = process_loop cfg s1 in (out @ out2, s2, t2)))"
  by pat_completeness auto
termination
  by (relation "measure (\<lambda>(cfg, s). length (tts_queue s))") auto

text \<open>\<^verbatim>\<open>_process_tts_queue\<close> from its start: the guard under the lock, then the loop.\<close>

definition process_tts_queue :: "config \<Rightarrow> service \<Rightarrow> outbox \<times> service \<times> task" where
  "process_tts_queue cfg s =
     (if is_processing_tts s then ([], s, Finished)
      else if tts_queue s = [] then ([], s, Finished)
      else process_loop cfg (s\<lparr>is_processing_tts := True\<rparr>))"

text \<open>When a handler has returned the loop goes on; when it has suspended the task rests.\<close>

definition continue :: "config \<Rightarrow> service \<Rightarrow> outbox \<times> task option \<Rightarrow> outbox \<times> service \<times> task" where
  "continue cfg s r =
     (case r of
        (out, Some t) \<Rightarrow> (out, s, t)
      | (out, None) \<Rightarrow> (let (out2, s2, t2) = process_loop cfg s in (out @ out2, s2, t2)))"

text \<open>The event loop runs a task from the place it rests at to its next one.\<close>

definition resume :: "config \<Rightarrow> service \<Rightarrow> task \<Rightarrow> outcome \<Rightarrow> outbox \<times> service \<times> task" where
  "resume cfg s t oc =
     (case t of
        Created \<Rightarrow> process_tts_queue cfg s
      | SynthStream w txt mid sentences i \<Rightarrow>
          continue cfg s (streaming_resume s w txt mid sentences i oc)
      | Sleeping w txt mid sentences i \<Rightarrow>
          continue cfg s (streaming_from s w txt mid sentences (i + 1))
      | SynthSingle w txt mid \<Rightarrow> continue cfg s (single_resume w txt mid oc)
      | Finished \<Rightarrow> ([], s, Finished))"

text \<open>
  The service with its driver tasks and the responses sent so far. An action of the event
  loop is the handling of one inbound message of a connection, or the resumption of task
  number \<open>k\<close> with what its awaited synthesis gave (unused where the task awaits none).
\<close>

record world =
  svc :: service
  tasks :: "task list"
  sent :: outbox

datatype action = Receive ws inbound | Resume nat outcome

fun step :: "modem \<Rightarrow> config \<Rightarrow> world \<Rightarrow> action \<Rightarrow> world" where
  "step send_ggwave cfg wd (Receive w message) =
     (let (out, s, spawned) = handle_websocket_message send_ggwave (svc wd) w message
      in \<lparr>svc = s,
          tasks = tasks wd @ (if spawned then [Created] else []),
          sent = sent wd @ out\<rparr>)"
| "step send_ggwave cfg wd (Resume k oc) =
     (if k < length (tasks wd)
      then
        let (out, s, t) = resume cfg (svc wd) (tasks wd ! k) oc
        in \<lparr>svc = s, tasks = (tasks wd)[k := t], sent = sent wd @ out\<rparr>
      else wd)"

definition run :: "modem \<Rightarrow> config \<Rightarrow> world \<Rightarrow> action list \<Rightarrow> world" where
  "run send_ggwave cfg wd as = foldl (step send_ggwave cfg) wd as"

text \<open>A task between the guard and the return of \<^verbatim>\<open>_process_tts_queue\<close> holds a request.\<close>

fun in_flight :: "task \<Rightarrow> bool" where
  "in_flight Created = False"
| "in_flight Finished = False"
| "in_flight _ = True"

text \<open>The service as \<^verbatim>\<open>__init__\<close> leaves it and \<^verbatim>\<open>start\<close> sets it running.\<close>

definition init_service :: "string \<Rightarrow> bool \<Rightarrow> service" where
  "init_service dev tts_loaded =
     \<lparr>running = True, device = dev, whisper_model = True, tts_model = tts_loaded,
      tts_queue = [], is_processing_tts = False, current_tts_id = None,
      last_message_data = (\<lambda>w. None)\<rparr>"

definition init_world :: "string \<Rightarrow> bool \<Rightarrow> world" where
  "init_world dev tts_loaded = \<lparr>svc = init_service dev tts_loaded, tasks = [], sent = []\<rparr>"

text \<open>
  An action is a \<^verbatim>\<open>stop_tts\<close> command; a run is calm from a world when no
  \<^verbatim>\<open>stop_tts\<close> is handled in it while \<^verbatim>\<open>is_processing_tts\<close> is set.
\<close>

fun is_stop_tts :: "action \<Rightarrow> bool" where
  "is_stop_tts (Receive w (Data command pl)) = (command = Some (str ''stop_tts''))"
| "is_stop_tts _ = False"

fun calm :: "modem \<Rightarrow> config \<Rightarrow> world \<Rightarrow> action list \<Rightarrow> bool" where
  "calm send_ggwave cfg wd [] = True"
| "calm send_ggwave cfg wd (a # as) =
     ((is_stop_tts a \<longrightarrow> \<not> is_processing_tts (svc wd))
      \<and> calm send_ggwave cfg (step send_ggwave cfg wd a) as)"

text \<open>A modem that reports success, for the closed statements below.\<close>

definition modem_ok :: modem where
  "modem_ok txt = Inr True"

text \<open>
  The messages a client sends: \<^verbatim>\<open>synthesize_speech\<close> with a text, an optional
  \<^verbatim>\<open>messageId\<close> and a \<^verbatim>\<open>streaming\<close> flag (as \<^verbatim>\<open>test_streaming_tts.py\<close> does), and
  \<^verbatim>\<open>stop_tts\<close>.
\<close>

definition tts_payload :: "pystr \<Rightarrow> pystr option \<Rightarrow> bool \<Rightarrow> payload_field" where
  "tts_payload txt mid flag =
     Payload \<lparr>p_text = Some txt, p_messageId = mid, p_streaming = Some flag\<rparr>"

definition synthesize_speech :: "pystr \<Rightarrow> pystr option \<Rightarrow> bool \<Rightarrow> inbound" where
  "synthesize_speech txt mid flag =
     Data (Some (str ''synthesize_speech'')) (tts_payload txt mid flag)"

definition stop_tts :: inbound where
  "stop_tts = Data (Some (str ''stop_tts'')) PayloadAbsent"

text \<open>
  The single-flight condition on a world: exactly one task holds a request while
  \<^verbatim>\<open>is_processing_tts\<close> is set, and none does while it is not.
\<close>

definition single_flight :: "world \<Rightarrow> bool" where
  "single_flight wd =
     (length (filter in_flight (tasks wd)) = (if is_processing_tts (svc wd) then 1 else 0))"

text \<open>
  How a run of the driver loop from service \<open>s\<close> can end: the task has returned, with the
  queue empty and both flags reset, or it rests in a handler and the processing flag is as
  it was.
\<close>

definition loop_result :: "service \<Rightarrow> service \<Rightarrow> task \<Rightarrow> bool" where
  "loop_result s s2 t =
     ((t = Finished \<and> \<not> is_processing_tts s2 \<and> tts_queue s2 = [] \<and> current_tts_id s2 = None)
      \<or> (in_flight t \<and> is_processing_tts s2 = is_processing_tts s))"

section \<open>Session controller: what is answered and what is not\<close>

text \<open>
  C5. An unknown command such as \<^verbatim>\<open>foo\<close> should be answered with an \<^verbatim>\<open>error\<close> event that
  names it. \<^verbatim>\<open>SpeechService\<close> evaluated at that message sends nothing (it only stores the
  message on the websocket), while \<^verbatim>\<open>MinimalSpeechService\<close> sends
  \<^verbatim>\<open>Unknown command: foo\<close>.
\<close>

theorem unknown_command_no_reply:
  "handle_websocket_message send_ggwave s w (Data (Some (str ''foo'')) pl)
     = ([], s\<lparr>last_message_data := (last_message_data s)(w := Some pl)\<rparr>, False)
   \<and> minimal_handle_websocket_message exn_text w (Data (Some (str ''foo'')) pl)
     = [(w, Error (str ''Unknown command: foo''))]"
  by (simp add: handle_websocket_message_def minimal_handle_websocket_message_def
      send_response_def str_def)

text \<open>
  C6. A message that is not valid JSON should be answered with an \<^verbatim>\<open>error\<close> event.
  \<^verbatim>\<open>SpeechService\<close> evaluated at such a message returns normally, changes nothing and
  sends nothing, while \<^verbatim>\<open>MinimalSpeechService\<close> sends \<^verbatim>\<open>Invalid JSON\<close>.
\<close>

theorem invalid_json_no_reply:
  "handle_websocket_message send_ggwave s w InvalidJson = ([], s, False)
   \<and> minimal_handle_websocket_message exn_text w InvalidJson
     = [(w, Error (str ''Invalid JSON''))]"
  by (simp add: handle_websocket_message_def minimal_handle_websocket_message_def
      send_response_def)

text \<open>
  C10. A \<^verbatim>\<open>synthesize_speech\<close> or \<^verbatim>\<open>send_ggwave\<close> command whose text is absent or empty
  gets no response, enqueues nothing and starts no driver task: the service is as before
  but for the message stored on the websocket.
\<close>

theorem empty_text_ignored:
  assumes "command = Some (str ''synthesize_speech'') \<or> command = Some (str ''send_ggwave'')"
    and "pl = PayloadAbsent \<or> (\<exists>p. pl = Payload p \<and> (p_text p = None \<or> p_text p = Some []))"
  shows "handle_websocket_message send_ggwave s w (Data command pl)
     = ([], s\<lparr>last_message_data := (last_message_data s)(w := Some pl)\<rparr>, False)"
  using assms
  by (auto simp add: handle_websocket_message_def str_def)

theorem empty_text_ignored_witness:
  "handle_websocket_message modem_ok (init_service ''cpu'' True) 0
     (Data (Some (str ''synthesize_speech''))
        (Payload \<lparr>p_text = Some [], p_messageId = None, p_streaming = None\<rparr>))
   = ([], (init_service ''cpu'' True)
            \<lparr>last_message_data := (last_message_data (init_service ''cpu'' True))
               (0 := Some (Payload \<lparr>p_text = Some [], p_messageId = None,
                                     p_streaming = None\<rparr>))\<rparr>, False)"
  by (rule empty_text_ignored) simp_all



section \<open>Synthesis queue: capacity and cancellation\<close>

text \<open>
  C8. With the synthesizer loaded, a \<^verbatim>\<open>synthesize_speech\<close> command with a non-empty text
  that arrives while the queue holds 10 requests fails with \<^verbatim>\<open>queue.Full\<close>: the request
  is not added, no driver task is created (nothing retries it), and the connection gets
  \<^verbatim>\<open>speech_error\<close>. Below 10 the request is appended at the back of the queue, nothing is
  sent and a driver task is created. The same holds of \<^verbatim>\<open>_handle_tts_request\<close> itself
  wherever the payload stored on the websocket yields a streaming flag.
\<close>

theorem enqueue_capacity:
  assumes "tts_model s" and "p_text p = Some txt" and "txt \<noteq> []"
  shows "(length (tts_queue s) = 10 \<longrightarrow>
            put_nowait tts_queue_maxsize (tts_queue s) r = Inl Full
          \<and> handle_websocket_message send_ggwave s w
                (Data (Some (str ''synthesize_speech'')) (Payload p))
              = ([(w, SpeechError (str ''TTS queue full, please try again later'') NoKey)],
                 s\<lparr>last_message_data := (last_message_data s)(w := Some (Payload p))\<rparr>,
                 False))
       \<and> (length (tts_queue s) < 10 \<longrightarrow>
            handle_websocket_message send_ggwave s w
                (Data (Some (str ''synthesize_speech'')) (Payload p))
              = ([],
                 s\<lparr>tts_queue := tts_queue s @
                       [\<lparr>websocket = w, tts_text = txt, message_id = p_messageId p,
                         streaming = (p_streaming p = Some True)\<rparr>],
                   last_message_data := (last_message_data s)(w := Some (Payload p))\<rparr>,
                 True))
       \<and> (stored_streaming s w = Inr flag \<longrightarrow>
            (length (tts_queue s) = 10 \<longrightarrow>
               handle_tts_request s w txt mid
                 = ([(w, SpeechError (str ''TTS queue full, please try again later'') NoKey)],
                    s, False))
          \<and> (length (tts_queue s) < 10 \<longrightarrow>
               handle_tts_request s w txt mid
                 = ([], s\<lparr>tts_queue := tts_queue s @
                         [\<lparr>websocket = w, tts_text = txt, message_id = mid,
                           streaming = flag\<rparr>]\<rparr>, True)))"
proof -
  have flag: "(case p_streaming p of None \<Rightarrow> False | Some b \<Rightarrow> b) = (p_streaming p = Some True)"
    by (cases "p_streaming p") auto
  show ?thesis
    using assms
    by (auto simp: handle_websocket_message_def handle_tts_request_def put_nowait_def
        tts_queue_maxsize_def stored_streaming_def send_response_def flag str_def)
qed

theorem enqueue_capacity_witness:
  "handle_websocket_message modem_ok
     ((init_service ''cpu'' True)\<lparr>tts_queue := replicate 10 \<lparr>websocket = 0, tts_text = str ''Hi there.'', message_id = None, streaming = False\<rparr>\<rparr>) 0
     (Data (Some (str ''synthesize_speech''))
        (Payload \<lparr>p_text = Some (str ''Hi there.''), p_messageId = None, p_streaming = None\<rparr>))
   = ([(0, SpeechError (str ''TTS queue full, please try again later'') NoKey)],
      (init_service ''cpu'' True)
        \<lparr>tts_queue := replicate 10 \<lparr>websocket = 0, tts_text = str ''Hi there.'', message_id = None, streaming = False\<rparr>,
         last_message_data := (last_message_data (init_service ''cpu'' True))
           (0 := Some (Payload \<lparr>p_text = Some (str ''Hi there.''), p_messageId = None,
                                 p_streaming = None\<rparr>))\<rparr>,
      False)
   \<and> handle_websocket_message modem_ok (init_service ''cpu'' True) 0
     (Data (Some (str ''synthesize_speech''))
        (Payload \<lparr>p_text = Some (str ''Hi there.''), p_messageId = None, p_streaming = None\<rparr>))
   = ([],
      (init_service ''cpu'' True)
        \<lparr>tts_queue := [\<lparr>websocket = 0, tts_text = str ''Hi there.'', message_id = None, streaming = False\<rparr>],
         last_message_data := (last_message_data (init_service ''cpu'' True))
           (0 := Some (Payload \<lparr>p_text = Some (str ''Hi there.''), p_messageId = None,
                                 p_streaming = None\<rparr>))\<rparr>,
      True)"
  using
    enqueue_capacity
      [of "(init_service ''cpu'' True)\<lparr>tts_queue := replicate 10 \<lparr>websocket = 0, tts_text = str ''Hi there.'', message_id = None, streaming = False\<rparr>\<rparr>"
          "\<lparr>p_text = Some (str ''Hi there.''), p_messageId = None, p_streaming = None\<rparr>"
          "str ''Hi there.''" "\<lparr>websocket = 0, tts_text = str ''Hi there.'', message_id = None, streaming = False\<rparr>" modem_ok 0 False None]
    enqueue_capacity
      [of "init_service ''cpu'' True"
          "\<lparr>p_text = Some (str ''Hi there.''), p_messageId = None, p_streaming = None\<rparr>"
          "str ''Hi there.''" "\<lparr>websocket = 0, tts_text = str ''Hi there.'', message_id = None, streaming = False\<rparr>" modem_ok 0 False None]
  by (simp add: init_service_def str_def [of "''Hi there.''"])

text \<open>
  C9. With no synthesis in progress, \<^verbatim>\<open>_handle_stop_tts\<close> returns normally, answers
  \<^verbatim>\<open>tts_stopped\<close> and leaves the service as it was, queue and flags included; a second call
  does the same again. The \<^verbatim>\<open>stop_tts\<close> command changes only the message stored on the
  websocket.
\<close>

theorem stop_tts_idle_noop:
  assumes "\<not> is_processing_tts s"
  shows "handle_stop_tts s w
           = (send_response w (TtsStopped (str ''No TTS currently processing'')), s, False)
         \<and> handle_stop_tts (fst (snd (handle_stop_tts s w))) w = handle_stop_tts s w
         \<and> handle_websocket_message send_ggwave s w (Data (Some (str ''stop_tts'')) pl)
           = (send_response w (TtsStopped (str ''No TTS currently processing'')),
              s\<lparr>last_message_data := (last_message_data s)(w := Some pl)\<rparr>, False)"
  using assms by (simp add: handle_stop_tts_def handle_websocket_message_def str_def)

theorem stop_tts_idle_noop_witness:
  "handle_stop_tts (init_service ''cpu'' True) 0
     = (send_response 0 (TtsStopped (str ''No TTS currently processing'')),
        init_service ''cpu'' True, False)"
  using stop_tts_idle_noop [of "init_service ''cpu'' True" 0 modem_ok PayloadAbsent]
  by (simp add: init_service_def)

section \<open>Segmentation buffer: utterance length\<close>

text \<open>
  A speech frame is appended without any test, so a run of speech frames only grows the
  buffer; the flush test is reached on silence frames alone.
\<close>

lemma speech_run:
  "audio_capture cfg c (replicate (Suc n) (Captured d Speech) @ es)
   = audio_capture cfg
       (c\<lparr>speech_buffer := speech_buffer c @ replicate (Suc n) d, silence_counter := 0\<rparr>) es"
proof (induction n arbitrary: c)
  case 0
  show ?case by (simp add: audio_capture_step_def)
next
  case (Suc n)
  have "audio_capture cfg c (replicate (Suc (Suc n)) (Captured d Speech) @ es)
        = audio_capture cfg (c\<lparr>speech_buffer := speech_buffer c @ [d], silence_counter := 0\<rparr>)
            (replicate (Suc n) (Captured d Speech) @ es)"
    by (simp add: audio_capture_step_def)
  also have "\<dots> = audio_capture cfg
       (c\<lparr>speech_buffer := (speech_buffer c @ [d]) @ replicate (Suc n) d,
          silence_counter := 0\<rparr>) es"
    by (simp only: Suc.IH) simp
  finally show ?case by (simp add: replicate_app_Cons_same)
qed

text \<open>The lower bound does hold: what is queued has at least \<^verbatim>\<open>min_speech_chunks\<close> frames.\<close>

lemma flushed_at_least_min:
  "process_speech_buffer cfg c = (c', Some u) \<Longrightarrow> min_speech_chunks cfg \<le> length u"
  by (auto simp: process_speech_buffer_def split: if_splits sum.splits)

lemma utterances_at_least_min:
  "u \<in> set (fst (audio_capture cfg c es)) \<Longrightarrow> min_speech_chunks cfg \<le> length u"
proof (induction es arbitrary: c)
  case Nil
  then show ?case by simp
next
  case (Cons e es)
  show ?case
  proof (cases e)
    case Taken
    with Cons show ?thesis by simp
  next
    case (Captured d v)
    obtain c1 x where st: "audio_capture_step cfg c d v = (c1, x)"
      by (cases "audio_capture_step cfg c d v")
    obtain us c2 where rest: "audio_capture cfg c1 es = (us, c2)"
      by (cases "audio_capture cfg c1 es")
    have mem: "u \<in> set (case x of None \<Rightarrow> us | Some y \<Rightarrow> y # us)"
      using Cons.prems Captured st rest by simp
    show ?thesis
    proof (cases "u \<in> set us")
      case True
      then show ?thesis using Cons.IH [of c1] rest by simp
    next
      case False
      with mem have x: "x = Some u" by (cases x) auto
      from st x show ?thesis
        by (cases v) (auto simp: audio_capture_step_def dest: flushed_at_least_min)
    qed
  qed
qed

text \<open>
  C3. Every utterance queued should have between \<^verbatim>\<open>min_speech_chunks\<close> and
  \<^verbatim>\<open>max_speech_chunks\<close> frames. With the configured values, 101 consecutive speech frames
  followed by one silence frame queue one utterance of 101 frames, more than the maximum
  of 100.
\<close>

theorem long_speech_run_exceeds_max:
  "fst (audio_capture SpeechConfig init_capture
          (replicate 101 (Captured d Speech) @ [Captured d Silence]))
   = [replicate 101 d]
   \<and> max_speech_chunks SpeechConfig < length (replicate 101 d)"
proof -
  have "audio_capture SpeechConfig init_capture
          (replicate (Suc 100) (Captured d Speech) @ [Captured d Silence])
     = audio_capture SpeechConfig
         (init_capture\<lparr>speech_buffer := speech_buffer init_capture @ replicate (Suc 100) d,
                        silence_counter := 0\<rparr>) [Captured d Silence]"
    by (rule speech_run)
  then show ?thesis
    by (simp add: init_capture_def SpeechConfig_def audio_capture_step_def
        process_speech_buffer_def put_nowait_def audio_queue_maxsize_def)
qed

section \<open>Synthesis queue: unfolding the loops\<close>

text \<open>
  The two loops are unfolded one iteration at a time, by the case their test takes.
\<close>

declare process_loop.simps [simp del]
declare streaming_from.simps [simp del]

lemma process_loop_empty:
  "tts_queue s = [] \<Longrightarrow>
   process_loop cfg s = ([], s\<lparr>is_processing_tts := False, current_tts_id := None\<rparr>, Finished)"
  by (subst process_loop.simps) simp

lemma process_loop_front:
  "tts_queue s = r # q \<Longrightarrow>
   process_loop cfg s =
     continue cfg (s\<lparr>tts_queue := q, current_tts_id := message_id r\<rparr>)
       (if streaming r
        then handle_streaming_tts cfg (s\<lparr>tts_queue := q, current_tts_id := message_id r\<rparr>)
               (websocket r) (tts_text r) (message_id r)
        else handle_single_tts (s\<lparr>tts_queue := q, current_tts_id := message_id r\<rparr>)
               (websocket r) (tts_text r) (message_id r))"
  by (subst process_loop.simps)
     (auto simp: continue_def Let_def split: prod.splits option.splits)

lemma streaming_from_done:
  "length sentences \<le> i \<Longrightarrow>
   streaming_from s w txt mid sentences i
     = (send_response w (TtsStreamComplete txt (length sentences) mid), None)"
  by (subst streaming_from.simps) simp

lemma streaming_from_superseded:
  "i < length sentences \<Longrightarrow> superseded s mid \<Longrightarrow>
   streaming_from s w txt mid sentences i = ([], None)"
  by (subst streaming_from.simps) simp

lemma streaming_from_await:
  "i < length sentences \<Longrightarrow> \<not> superseded s mid \<Longrightarrow> strip (sentences ! i) \<noteq> [] \<Longrightarrow>
   streaming_from s w txt mid sentences i = ([], Some (SynthStream w txt mid sentences i))"
  by (subst streaming_from.simps) simp

lemma streaming_from_blank:
  "i < length sentences \<Longrightarrow> \<not> superseded s mid \<Longrightarrow> strip (sentences ! i) = [] \<Longrightarrow>
   streaming_from s w txt mid sentences i = streaming_from s w txt mid sentences (i + 1)"
  by (subst streaming_from.simps) simp

section \<open>Runs of the event loop\<close>

lemma run_Nil: "run g cfg wd [] = wd"
  by (simp add: run_def)

lemma run_Cons: "run g cfg wd (a # as) = run g cfg (step g cfg wd a) as"
  by (simp add: run_def)

lemma run_append: "run g cfg wd (as @ bs) = run g cfg (run g cfg wd as) bs"
  by (simp add: run_def)

text \<open>
  The text of scenario B holds none of the signs the cleaning patterns start with, so
  cleaning leaves it as it is; it is split after each full stop, and then the first
  sentence, being shorter than 20 characters, is joined to the second.
\<close>

lemma clean_one_two_three:
  "remove_markdown (remove_thinking (str ''One. Two. Three.'')) = str ''One. Two. Three.''"
  by (simp add: remove_markdown_def remove_thinking_def thinking_re_def bold_re_def
      italic_re_def code_re_def header_re_def lits_def str_def)

lemma split_one_two_three:
  "split_into_sentences SpeechConfig (str ''One. Two. Three.'')
   = [str ''One. Two.'', str ''Three.'']"
  unfolding split_into_sentences_def clean_one_two_three
  by (simp add: sentence_end_re_def str_def is_space_def prev_after_def strip_def
      limit_length_def SpeechConfig_def)

lemma strip_one_two: "strip (str ''One. Two.'') = str ''One. Two.''"
  by (simp add: strip_def str_def is_space_def)

lemma strip_three: "strip (str ''Three.'') = str ''Three.''"
  by (simp add: strip_def str_def is_space_def)

lemma str_nonempty [simp]: "str (c # cs) \<noteq> []"
  by (simp add: str_def)

lemma nonblank_one_two: "strip (str ''One. Two.'') \<noteq> []"
  by (simp add: strip_def str_def is_space_def)

lemma nonblank_three: "strip (str ''Three.'') \<noteq> []"
  by (simp add: strip_def str_def is_space_def)

text \<open>Single steps: a request is enqueued, a cancellation is handled, a task is resumed.\<close>

lemma receive_synthesize:
  assumes "tts_model s" and "length (tts_queue s) < 10" and "tx \<noteq> []"
  shows "step g cfg \<lparr>svc = s, tasks = ts, sent = out\<rparr> (Receive w (synthesize_speech tx mid flag))
     = \<lparr>svc = s\<lparr>tts_queue := tts_queue s @
                  [\<lparr>websocket = w, tts_text = tx, message_id = mid, streaming = flag\<rparr>],
                last_message_data := (last_message_data s)(w := Some (tts_payload tx mid flag))\<rparr>,
        tasks = ts @ [Created], sent = out\<rparr>"
  using assms
  by (simp add: synthesize_speech_def tts_payload_def handle_websocket_message_def
      handle_tts_request_def put_nowait_def tts_queue_maxsize_def stored_streaming_def
      str_def)

lemma receive_stop_tts:
  assumes "is_processing_tts s"
  shows "step g cfg \<lparr>svc = s, tasks = ts, sent = out\<rparr> (Receive w stop_tts)
     = \<lparr>svc = s\<lparr>tts_queue := [], is_processing_tts := False, current_tts_id := None,
                last_message_data := (last_message_data s)(w := Some PayloadAbsent)\<rparr>,
        tasks = ts, sent = out @ [(w, TtsStopped (str ''TTS processing stopped''))]\<rparr>"
proof -
  have d: "drain q = []" for q :: "request list" by (induction q) simp_all
  show ?thesis using assms
    by (simp add: stop_tts_def handle_websocket_message_def handle_stop_tts_def d
        send_response_def str_def)
qed


lemma resume_created_streaming:
  assumes "\<not> is_processing_tts s" and "tts_queue s = r # q" and "streaming r"
    and "split_into_sentences cfg (tts_text r) = sents"
    and "0 < length sents" and "strip (sents ! 0) \<noteq> []"
  shows "resume cfg s Created oc
     = ([(websocket r, TtsStreamStart (length sents) (tts_text r) (message_id r))],
        s\<lparr>tts_queue := q, is_processing_tts := True, current_tts_id := message_id r\<rparr>,
        SynthStream (websocket r) (tts_text r) (message_id r) sents 0)"
proof -
  let ?s1 = "s\<lparr>is_processing_tts := True, tts_queue := q, current_tts_id := message_id r\<rparr>"
  have live: "\<not> superseded ?s1 (message_id r)" by (simp add: superseded_def)
  have a: "streaming_from ?s1 (websocket r) (tts_text r) (message_id r) sents 0
           = ([], Some (SynthStream (websocket r) (tts_text r) (message_id r) sents 0))"
    using live assms(5,6) by (rule_tac streaming_from_await) simp_all
  have b: "handle_streaming_tts cfg ?s1 (websocket r) (tts_text r) (message_id r)
           = ([(websocket r, TtsStreamStart (length sents) (tts_text r) (message_id r))],
              Some (SynthStream (websocket r) (tts_text r) (message_id r) sents 0))"
    using live by (simp add: handle_streaming_tts_def assms(4) a send_response_def)
  have c: "process_loop cfg (s\<lparr>is_processing_tts := True\<rparr>)
           = ([(websocket r, TtsStreamStart (length sents) (tts_text r) (message_id r))],
              ?s1, SynthStream (websocket r) (tts_text r) (message_id r) sents 0)"
    using b assms(2,3)
    by (subst process_loop_front [where r = r and q = q]) (simp_all add: continue_def)
  show ?thesis
    using assms(1,2) c by (simp add: resume_def process_tts_queue_def)
qed

lemma resume_generated:
  "resume cfg s (SynthStream w tx mid sents i) (Generated a)
   = ([(w, TtsStreamChunk a (strip (sents ! i)) i (length sents)
            (int i = int (length sents) - 1) mid)],
      s, Sleeping w tx mid sents i)"
  by (simp add: resume_def streaming_resume_def continue_def send_response_def)

lemma resume_raised:
  "resume cfg s (SynthStream w tx mid sents i) (Raised e)
   = (let (out, s2, t2) = process_loop cfg s in ((w, TtsStreamError e mid) # out, s2, t2))"
  by (simp add: resume_def streaming_resume_def continue_def send_response_def)

lemma resume_failed:
  "resume cfg s (SynthStream w tx mid sents i) GenFailed
   = resume cfg s (Sleeping w tx mid sents i) oc"
  by (simp add: resume_def streaming_resume_def)

lemma resume_next_sentence:
  assumes "i + 1 < length sents" and "\<not> superseded s mid" and "strip (sents ! (i + 1)) \<noteq> []"
  shows "resume cfg s (Sleeping w tx mid sents i) oc = ([], s, SynthStream w tx mid sents (i + 1))"
  using assms by (simp add: resume_def continue_def streaming_from_await)

lemma resume_past_last:
  assumes "length sents \<le> i + 1"
  shows "resume cfg s (Sleeping w tx mid sents i) oc
     = (let (out, s2, t2) = process_loop cfg s
        in ((w, TtsStreamComplete tx (length sents) mid) # out, s2, t2))"
  using assms by (simp add: resume_def continue_def streaming_from_done send_response_def)


text \<open>The request of scenario B, from its arrival to the wait for its first sentence.\<close>

lemma one_two_three_started:
  "run g SpeechConfig (init_world dev True)
     [Receive w (synthesize_speech (str ''One. Two. Three.'') mid True), Resume 0 oc]
   = \<lparr>svc = \<lparr>running = True, device = dev, whisper_model = True, tts_model = True,
              tts_queue = [], is_processing_tts = True, current_tts_id = mid,
              last_message_data =
                (\<lambda>x. None)(w := Some (tts_payload (str ''One. Two. Three.'') mid True))\<rparr>,
      tasks = [SynthStream w (str ''One. Two. Three.'') mid
                 [str ''One. Two.'', str ''Three.''] 0],
      sent = [(w, TtsStreamStart 2 (str ''One. Two. Three.'') mid)]\<rparr>"
proof -
  define tx where "tx = str ''One. Two. Three.''"
  define r where "r = \<lparr>websocket = w, tts_text = tx, message_id = mid, streaming = True\<rparr>"
  define s1 where "s1 = (init_service dev True)
      \<lparr>tts_queue := tts_queue (init_service dev True) @ [r],
       last_message_data :=
         (last_message_data (init_service dev True))(w := Some (tts_payload tx mid True))\<rparr>"
  have ne: "tx \<noteq> []" by (simp add: tx_def str_def)
  have st1: "step g SpeechConfig (init_world dev True) (Receive w (synthesize_speech tx mid True))
             = \<lparr>svc = s1, tasks = [] @ [Created], sent = []\<rparr>"
    unfolding init_world_def s1_def r_def
    by (rule receive_synthesize) (simp_all add: init_service_def ne)
  have res: "resume SpeechConfig s1 Created oc
     = ([(websocket r, TtsStreamStart (length [str ''One. Two.'', str ''Three.''])
            (tts_text r) (message_id r))],
        s1\<lparr>tts_queue := [], is_processing_tts := True, current_tts_id := message_id r\<rparr>,
        SynthStream (websocket r) (tts_text r) (message_id r)
          [str ''One. Two.'', str ''Three.''] 0)"
    by (rule resume_created_streaming)
       (simp_all add: s1_def init_service_def r_def tx_def split_one_two_three
          nonblank_one_two)
  have st2: "step g SpeechConfig \<lparr>svc = s1, tasks = [] @ [Created], sent = []\<rparr> (Resume 0 oc)
     = \<lparr>svc = s1\<lparr>tts_queue := [], is_processing_tts := True, current_tts_id := message_id r\<rparr>,
        tasks = [SynthStream (websocket r) (tts_text r) (message_id r)
                   [str ''One. Two.'', str ''Three.''] 0],
        sent = [(websocket r, TtsStreamStart (length [str ''One. Two.'', str ''Three.''])
                   (tts_text r) (message_id r))]\<rparr>"
    by (simp add: res)
  have "run g SpeechConfig (init_world dev True)
          [Receive w (synthesize_speech tx mid True), Resume 0 oc]
        = \<lparr>svc = s1\<lparr>tts_queue := [], is_processing_tts := True, current_tts_id := message_id r\<rparr>,
        tasks = [SynthStream (websocket r) (tts_text r) (message_id r)
                   [str ''One. Two.'', str ''Three.''] 0],
        sent = [(websocket r, TtsStreamStart (length [str ''One. Two.'', str ''Three.''])
                   (tts_text r) (message_id r))]\<rparr>"
    by (simp only: run_Cons run_Nil st1 st2)
  then show ?thesis
    unfolding tx_def [symmetric]
    by (simp add: s1_def r_def init_service_def)
qed

lemma one_two_three_rest:
  assumes "\<not> superseded s mid" and "tts_queue s = []"
  shows "run g cfg
     \<lparr>svc = s,
      tasks = [SynthStream w tx mid [str ''One. Two.'', str ''Three.''] 0],
      sent = out\<rparr>
     [Resume 0 (Generated a0), Resume 0 oc1, Resume 0 (Generated a1), Resume 0 oc2]
   = \<lparr>svc = s\<lparr>is_processing_tts := False, current_tts_id := None\<rparr>,
      tasks = [Finished],
      sent = out @ [(w, TtsStreamChunk a0 (str ''One. Two.'') 0 2 False mid),
                    (w, TtsStreamChunk a1 (str ''Three.'') 1 2 True mid),
                    (w, TtsStreamComplete tx 2 mid)]\<rparr>"
  using assms
  by (simp add: run_Cons run_Nil resume_generated resume_next_sentence resume_past_last
      process_loop_empty strip_one_two strip_three nonblank_one_two nonblank_three)


section \<open>Streaming synthesis\<close>

text \<open>
  C2 as stated fails: the splitter returns two sentences for \<^verbatim>\<open>One. Two. Three.\<close>, not
  three, since \<^verbatim>\<open>One.\<close> is merged into \<^verbatim>\<open>Two.\<close>
\<close>

theorem scenario_b_three_sentences_counterexample:
  "split_into_sentences SpeechConfig (str ''One. Two. Three.'')
     = [str ''One. Two.'', str ''Three.'']
   \<and> length (split_into_sentences SpeechConfig (str ''One. Two. Three.'')) \<noteq> 3"
  by (simp add: split_one_two_three)

text \<open>
  C2 as amended: for a streaming request with text \<^verbatim>\<open>One. Two. Three.\<close>, handled alone
  and with every synthesis succeeding, the connection receives \<^verbatim>\<open>tts_stream_start\<close> with
  \<^verbatim>\<open>total_sentences\<close> 2, then the chunks with index 0 (\<^verbatim>\<open>One. Two.\<close>) and 1
  (\<^verbatim>\<open>Three.\<close>), \<^verbatim>\<open>is_final\<close> being true on index 1 only, then \<^verbatim>\<open>tts_stream_complete\<close>.
  The run: the request arrives; the driver task starts; the two syntheses give the audio
  \<open>a0\<close> and \<open>a1\<close>, with the pause after each chunk. The outcomes \<open>oc0\<close>, \<open>oc1\<close>, \<open>oc2\<close>
  belong to resumptions that await no synthesis and are not read.
\<close>

theorem scenario_b_two_chunks:
  "sent (run send_ggwave SpeechConfig (init_world dev True)
      [Receive w (synthesize_speech (str ''One. Two. Three.'') mid True),
       Resume 0 oc0, Resume 0 (Generated a0), Resume 0 oc1, Resume 0 (Generated a1),
       Resume 0 oc2])
   = [(w, TtsStreamStart 2 (str ''One. Two. Three.'') mid),
      (w, TtsStreamChunk a0 (str ''One. Two.'') 0 2 False mid),
      (w, TtsStreamChunk a1 (str ''Three.'') 1 2 True mid),
      (w, TtsStreamComplete (str ''One. Two. Three.'') 2 mid)]"
proof -
  have "run send_ggwave SpeechConfig (init_world dev True)
      ([Receive w (synthesize_speech (str ''One. Two. Three.'') mid True), Resume 0 oc0]
       @ [Resume 0 (Generated a0), Resume 0 oc1, Resume 0 (Generated a1), Resume 0 oc2])
     = run send_ggwave SpeechConfig
         (run send_ggwave SpeechConfig (init_world dev True)
            [Receive w (synthesize_speech (str ''One. Two. Three.'') mid True), Resume 0 oc0])
         [Resume 0 (Generated a0), Resume 0 oc1, Resume 0 (Generated a1), Resume 0 oc2]"
    by (rule run_append)
  then show ?thesis
    by (simp add: one_two_three_started one_two_three_rest superseded_def)
qed

lemma one_two_three_first_failed:
  assumes "\<not> superseded s mid" and "tts_queue s = []"
  shows "run g cfg
     \<lparr>svc = s,
      tasks = [SynthStream w tx mid [str ''One. Two.'', str ''Three.''] 0],
      sent = out\<rparr>
     [Resume 0 GenFailed, Resume 0 (Generated a1), Resume 0 oc2]
   = \<lparr>svc = s\<lparr>is_processing_tts := False, current_tts_id := None\<rparr>,
      tasks = [Finished],
      sent = out @ [(w, TtsStreamChunk a1 (str ''Three.'') 1 2 True mid),
                    (w, TtsStreamComplete tx 2 mid)]\<rparr>"
  using assms
  by (simp add: run_Cons run_Nil resume_generated resume_next_sentence resume_past_last
      resume_failed [where oc = GenFailed]
      process_loop_empty strip_one_two strip_three nonblank_one_two nonblank_three)

lemma one_two_three_raised:
  assumes "tts_queue s = []"
  shows "run g cfg
     \<lparr>svc = s,
      tasks = [SynthStream w tx mid [str ''One. Two.'', str ''Three.''] 0],
      sent = out\<rparr>
     [Resume 0 (Raised e)]
   = \<lparr>svc = s\<lparr>is_processing_tts := False, current_tts_id := None\<rparr>,
      tasks = [Finished],
      sent = out @ [(w, TtsStreamError e mid)]\<rparr>"
  using assms by (simp add: run_Cons run_Nil resume_raised process_loop_empty)

text \<open>
  C4. When the synthesis of a sentence fails, \<^verbatim>\<open>tts_stream_error\<close> should be sent and the
  rest of the request dropped, with no \<^verbatim>\<open>tts_stream_complete\<close>. The code evaluated where
  the synthesizer fails on the first of the two sentences (\<^verbatim>\<open>_generate_speech\<close> catches the
  failure and returns \<^verbatim>\<open>None\<close>) sends no \<^verbatim>\<open>tts_stream_error\<close>, still sends the chunk of
  the second sentence, and sends \<^verbatim>\<open>tts_stream_complete\<close>. The run: the request arrives;
  the driver task starts (its outcome argument is unused); the synthesis of sentence 0
  fails; the synthesis of sentence 1 gives the audio \<open>[1]\<close>; the task wakes from its pause
  (outcome unused). The error event and the stop are what the \<^verbatim>\<open>except\<close> clause of the
  handler does, which only an exception raised in the handler itself reaches: the second
  run has one raised in place of the failed synthesis.
\<close>

theorem failed_sentence_no_stream_error:
  "sent (run modem_ok SpeechConfig (init_world ''cpu'' True)
      [Receive 0 (synthesize_speech (str ''One. Two. Three.'') None True),
       Resume 0 GenFailed, Resume 0 GenFailed, Resume 0 (Generated [1]), Resume 0 GenFailed])
   = [(0, TtsStreamStart 2 (str ''One. Two. Three.'') None),
      (0, TtsStreamChunk [1] (str ''Three.'') 1 2 True None),
      (0, TtsStreamComplete (str ''One. Two. Three.'') 2 None)]
   \<and> sent (run modem_ok SpeechConfig (init_world ''cpu'' True)
      [Receive 0 (synthesize_speech (str ''One. Two. Three.'') None True),
       Resume 0 GenFailed, Resume 0 (Raised (str ''No such file'')),
       Resume 0 (Generated [1]), Resume 0 GenFailed])
   = [(0, TtsStreamStart 2 (str ''One. Two. Three.'') None),
      (0, TtsStreamError (str ''No such file'') None)]"
proof -
  have a: "run modem_ok SpeechConfig (init_world ''cpu'' True)
      ([Receive 0 (synthesize_speech (str ''One. Two. Three.'') None True), Resume 0 GenFailed]
       @ [Resume 0 GenFailed, Resume 0 (Generated [1]), Resume 0 GenFailed])
     = run modem_ok SpeechConfig
         (run modem_ok SpeechConfig (init_world ''cpu'' True)
            [Receive 0 (synthesize_speech (str ''One. Two. Three.'') None True),
             Resume 0 GenFailed])
         [Resume 0 GenFailed, Resume 0 (Generated [1]), Resume 0 GenFailed]"
    by (rule run_append)
  then have first: "sent (run modem_ok SpeechConfig (init_world ''cpu'' True)
      [Receive 0 (synthesize_speech (str ''One. Two. Three.'') None True),
       Resume 0 GenFailed, Resume 0 GenFailed, Resume 0 (Generated [1]), Resume 0 GenFailed])
   = [(0, TtsStreamStart 2 (str ''One. Two. Three.'') None),
      (0, TtsStreamChunk [1] (str ''Three.'') 1 2 True None),
      (0, TtsStreamComplete (str ''One. Two. Three.'') 2 None)]"
    by (simp add: one_two_three_started one_two_three_first_failed superseded_def)
  define s1 where "s1 =
    \<lparr>running = True, device = ''cpu'', whisper_model = True, tts_model = True,
     tts_queue = [], is_processing_tts = True, current_tts_id = None,
     last_message_data =
       (\<lambda>x. None)(0 := Some (tts_payload (str ''One. Two. Three.'') None True))\<rparr>"
  define t1 where
    "t1 = SynthStream 0 (str ''One. Two. Three.'') None [str ''One. Two.'', str ''Three.''] 0"
  define out1 where "out1 = [(0::nat, TtsStreamStart 2 (str ''One. Two. Three.'') None)]"
  have w1: "run modem_ok SpeechConfig (init_world ''cpu'' True)
              [Receive 0 (synthesize_speech (str ''One. Two. Three.'') None True),
               Resume 0 GenFailed]
            = \<lparr>svc = s1, tasks = [t1], sent = out1\<rparr>"
    unfolding s1_def t1_def out1_def by (rule one_two_three_started)
  have w2: "run modem_ok SpeechConfig \<lparr>svc = s1, tasks = [t1], sent = out1\<rparr>
              [Resume 0 (Raised (str ''No such file''))]
            = \<lparr>svc = s1\<lparr>is_processing_tts := False, current_tts_id := None\<rparr>,
               tasks = [Finished],
               sent = out1 @ [(0, TtsStreamError (str ''No such file'') None)]\<rparr>"
    unfolding t1_def by (rule one_two_three_raised) (simp add: s1_def)
  have w3: "run modem_ok SpeechConfig
              \<lparr>svc = s1\<lparr>is_processing_tts := False, current_tts_id := None\<rparr>,
               tasks = [Finished],
               sent = out1 @ [(0, TtsStreamError (str ''No such file'') None)]\<rparr>
              [Resume 0 (Generated [1]), Resume 0 GenFailed]
            = \<lparr>svc = s1\<lparr>is_processing_tts := False, current_tts_id := None\<rparr>,
               tasks = [Finished],
               sent = out1 @ [(0, TtsStreamError (str ''No such file'') None)]\<rparr>"
    by (simp add: run_Cons run_Nil resume_def)
  have "run modem_ok SpeechConfig (init_world ''cpu'' True)
      (([Receive 0 (synthesize_speech (str ''One. Two. Three.'') None True), Resume 0 GenFailed]
        @ [Resume 0 (Raised (str ''No such file''))])
       @ [Resume 0 (Generated [1]), Resume 0 GenFailed])
     = \<lparr>svc = s1\<lparr>is_processing_tts := False, current_tts_id := None\<rparr>,
        tasks = [Finished],
        sent = out1 @ [(0, TtsStreamError (str ''No such file'') None)]\<rparr>"
    by (simp only: run_append w1 w2 w3)
  then have second: "sent (run modem_ok SpeechConfig (init_world ''cpu'' True)
      [Receive 0 (synthesize_speech (str ''One. Two. Three.'') None True),
       Resume 0 GenFailed, Resume 0 (Raised (str ''No such file'')),
       Resume 0 (Generated [1]), Resume 0 GenFailed])
   = [(0, TtsStreamStart 2 (str ''One. Two. Three.'') None),
      (0, TtsStreamError (str ''No such file'') None)]"
    by (simp add: out1_def)
  from first second show ?thesis by (rule conjI)
qed

section \<open>Single flight\<close>

text \<open>
  Whatever a handler suspends at holds a request, and the driver loop ends in one of the two
  ways of \<open>loop_result\<close>; so does every resumption of a task that holds a request.
\<close>

lemma streaming_from_in_flight:
  "streaming_from s w tx mid sents i = (out, Some t) \<Longrightarrow> in_flight t"
proof (induction s w tx mid sents i rule: streaming_from.induct)
  case (1 s w tx mid sentences i)
  show ?case
  proof (cases "i < length sentences")
    case False
    with "1.prems" show ?thesis by (simp add: streaming_from_done)
  next
    case True
    show ?thesis
    proof (cases "superseded s mid")
      case True
      with \<open>i < length sentences\<close> "1.prems" show ?thesis
        by (simp add: streaming_from_superseded)
    next
      case False
      show ?thesis
      proof (cases "strip (sentences ! i) = []")
        case True
        with \<open>i < length sentences\<close> \<open>\<not> superseded s mid\<close> "1.prems" "1.IH" show ?thesis
          by (simp add: streaming_from_blank)
      next
        case False
        with \<open>i < length sentences\<close> \<open>\<not> superseded s mid\<close> "1.prems" show ?thesis
          by (auto simp: streaming_from_await)
      qed
    qed
  qed
qed

lemma handle_streaming_in_flight:
  "handle_streaming_tts cfg s w tx mid = (out, Some t) \<Longrightarrow> in_flight t"
  by (auto simp: handle_streaming_tts_def Let_def split: if_splits prod.splits
      dest: streaming_from_in_flight)

lemma handle_single_in_flight:
  "handle_single_tts s w tx mid = (out, Some t) \<Longrightarrow> in_flight t"
  by (auto simp: handle_single_tts_def split: if_splits)

lemma streaming_resume_in_flight:
  "streaming_resume s w tx mid sents i oc = (out, Some t) \<Longrightarrow> in_flight t"
  by (auto simp: streaming_resume_def split: outcome.splits dest: streaming_from_in_flight)

lemma single_resume_returns: "snd (single_resume w tx mid oc) = None"
  by (simp add: single_resume_def split: outcome.splits)

lemma process_loop_result:
  "process_loop cfg s = (out, s2, t) \<Longrightarrow> loop_result s s2 t"
proof (induction cfg s arbitrary: out s2 t rule: process_loop.induct)
  case (1 cfg s)
  show ?case
  proof (cases "tts_queue s")
    case Nil
    with "1.prems" show ?thesis by (auto simp: process_loop_empty loop_result_def)
  next
    case (Cons r q)
    let ?s1 = "s\<lparr>tts_queue := q, current_tts_id := message_id r\<rparr>"
    let ?h = "if streaming r
        then handle_streaming_tts cfg ?s1 (websocket r) (tts_text r) (message_id r)
        else handle_single_tts ?s1 (websocket r) (tts_text r) (message_id r)"
    obtain o1 r1 where h: "?h = (o1, r1)" by (cases ?h)
    have eq: "process_loop cfg s = continue cfg ?s1 (o1, r1)"
      using process_loop_front [OF Cons, of cfg] h by simp
    show ?thesis
    proof (cases r1)
      case (Some t1)
      then have "in_flight t1" using h
        by (auto split: if_splits dest: handle_streaming_in_flight handle_single_in_flight)
      with Some eq "1.prems" show ?thesis by (auto simp: continue_def loop_result_def)
    next
      case None
      obtain o2 s3 t3 where pl: "process_loop cfg ?s1 = (o2, s3, t3)"
        by (cases "process_loop cfg ?s1")
      have "loop_result ?s1 s3 t3"
        using "1.IH" [OF Cons refl _ refl _ pl] h None by simp
      moreover have "s2 = s3" "t = t3"
        using None eq "1.prems" pl by (simp_all add: continue_def)
      ultimately show ?thesis by (simp add: loop_result_def)
    qed
  qed
qed


lemma continue_result:
  assumes "continue cfg s r = (out, s2, t)" and "\<And>t1. snd r = Some t1 \<Longrightarrow> in_flight t1"
  shows "loop_result s s2 t"
proof (cases "snd r")
  case None
  obtain o2 s3 t3 where pl: "process_loop cfg s = (o2, s3, t3)"
    by (cases "process_loop cfg s")
  from process_loop_result [OF pl] None assms(1) pl show ?thesis
    by (cases r) (simp add: continue_def)
next
  case (Some t1)
  with assms show ?thesis by (cases r) (auto simp: continue_def loop_result_def)
qed

lemma snd_streaming_resume_in_flight:
  "snd (streaming_resume s w tx mid sents i oc) = Some t \<Longrightarrow> in_flight t"
  by (cases "streaming_resume s w tx mid sents i oc") (auto dest: streaming_resume_in_flight)

lemma snd_streaming_from_in_flight:
  "snd (streaming_from s w tx mid sents i) = Some t \<Longrightarrow> in_flight t"
  by (cases "streaming_from s w tx mid sents i") (auto dest: streaming_from_in_flight)

lemma resume_in_flight_result:
  assumes "in_flight t" and "resume cfg s t oc = (out, s2, t2)"
  shows "loop_result s s2 t2"
proof (cases t)
  case (SynthStream w tx mid sents i)
  with assms(2) have "continue cfg s (streaming_resume s w tx mid sents i oc) = (out, s2, t2)"
    by (simp add: resume_def)
  then show ?thesis
    by (rule continue_result) (rule snd_streaming_resume_in_flight)
next
  case (Sleeping w tx mid sents i)
  with assms(2) have "continue cfg s (streaming_from s w tx mid sents (i + 1)) = (out, s2, t2)"
    by (simp add: resume_def)
  then show ?thesis
    by (rule continue_result) (rule snd_streaming_from_in_flight)
next
  case (SynthSingle w tx mid)
  with assms(2) have "continue cfg s (single_resume w tx mid oc) = (out, s2, t2)"
    by (simp add: resume_def)
  then show ?thesis
    by (rule continue_result) (simp add: single_resume_returns)
qed (use assms(1) in simp_all)

text \<open>
  The guard of \<^verbatim>\<open>_process_tts_queue\<close>: a new task returns at once while the flag is set,
  and else it either returns with the flag clear or takes a request and sets the flag.
\<close>

lemma resume_created_result:
  assumes "resume cfg s Created oc = (out, s2, t2)"
  shows "if is_processing_tts s then t2 = Finished \<and> s2 = s
         else (t2 = Finished \<and> \<not> is_processing_tts s2)
              \<or> (in_flight t2 \<and> is_processing_tts s2)"
proof (cases "is_processing_tts s \<or> tts_queue s = []")
  case True
  with assms show ?thesis by (auto simp: resume_def process_tts_queue_def)
next
  case False
  then have "process_loop cfg (s\<lparr>is_processing_tts := True\<rparr>) = (out, s2, t2)"
    using assms by (simp add: resume_def process_tts_queue_def)
  from process_loop_result [OF this] False show ?thesis by (auto simp: loop_result_def)
qed


text \<open>
  Every step keeps the single-flight condition, unless it is a \<^verbatim>\<open>stop_tts\<close> handled
  while the flag is set.
\<close>

lemma filter_update_count:
  "k < length ts \<Longrightarrow>
   length (filter P (ts[k := t])) + (if P (ts ! k) then 1 else 0)
   = length (filter P ts) + (if P t then 1 else 0)"
proof (induction ts arbitrary: k)
  case Nil
  then show ?case by simp
next
  case (Cons x ts)
  show ?case
  proof (cases k)
    case 0
    then show ?thesis by simp
  next
    case (Suc j)
    with Cons.prems have "j < length ts" by simp
    from Cons.IH [OF this] Suc show ?thesis by simp
  qed
qed

lemma handle_message_processing:
  assumes "handle_websocket_message g s w m = (out, s2, sp)"
    and "is_stop_tts (Receive w m) \<longrightarrow> \<not> is_processing_tts s"
  shows "is_processing_tts s2 = is_processing_tts s"
proof (cases m)
  case (Data command pl)
  show ?thesis
  proof (cases "command = Some (str ''stop_tts'')")
    case True
    with assms Data show ?thesis
      by (auto simp: handle_websocket_message_def handle_stop_tts_def str_def)
  next
    case False
    with assms(1) Data show ?thesis
      by (auto simp: handle_websocket_message_def handle_tts_request_def
          handle_ggwave_request_def Let_def
          split: if_splits payload_field.splits option.splits sum.splits)
  qed
qed (use assms(1) in \<open>auto simp: handle_websocket_message_def\<close>)

lemma step_single_flight:
  assumes "single_flight wd" and "is_stop_tts a \<longrightarrow> \<not> is_processing_tts (svc wd)"
  shows "single_flight (step g cfg wd a)"
proof (cases a)
  case (Receive w m)
  obtain out s2 sp where h: "handle_websocket_message g (svc wd) w m = (out, s2, sp)"
    by (cases "handle_websocket_message g (svc wd) w m")
  have "is_processing_tts s2 = is_processing_tts (svc wd)"
    using handle_message_processing [OF h] assms(2) Receive by simp
  with assms(1) h Receive show ?thesis by (simp add: single_flight_def)
next
  case (Resume k oc)
  show ?thesis
  proof (cases "k < length (tasks wd)")
    case False
    with Resume assms(1) show ?thesis by simp
  next
    case True
    obtain out s2 t2 where r: "resume cfg (svc wd) (tasks wd ! k) oc = (out, s2, t2)"
      by (cases "resume cfg (svc wd) (tasks wd ! k) oc")
    have cnt: "length (filter in_flight ((tasks wd)[k := t2]))
               + (if in_flight (tasks wd ! k) then 1 else 0)
               = length (filter in_flight (tasks wd)) + (if in_flight t2 then 1 else 0)"
      using True by (rule filter_update_count)
    have st: "step g cfg wd a = \<lparr>svc = s2, tasks = (tasks wd)[k := t2], sent = sent wd @ out\<rparr>"
      using Resume True r by simp
    show ?thesis
    proof (cases "in_flight (tasks wd ! k)")
      case True
      from resume_in_flight_result [OF True r]
      show ?thesis using cnt True assms(1)
        by (auto simp: st single_flight_def loop_result_def split: if_splits)
    next
      case False
      then consider "tasks wd ! k = Created" | "tasks wd ! k = Finished"
        by (cases "tasks wd ! k") simp_all
      then show ?thesis
      proof cases
        case 1
        from resume_created_result [of cfg "svc wd" oc out s2 t2] r 1
        show ?thesis using cnt 1 assms(1)
          by (auto simp: st single_flight_def split: if_splits)
      next
        case 2
        with r have "s2 = svc wd" "t2 = Finished" by (simp_all add: resume_def)
        then show ?thesis using cnt 2 assms(1) by (simp add: st single_flight_def)
      qed
    qed
  qed
qed

lemma run_single_flight:
  "single_flight wd \<Longrightarrow> calm g cfg wd as \<Longrightarrow> single_flight (run g cfg wd as)"
proof (induction as arbitrary: wd)
  case Nil
  then show ?case by (simp add: run_def)
next
  case (Cons a as)
  from Cons.prems have "single_flight (step g cfg wd a)"
    by (intro step_single_flight) simp_all
  moreover from Cons.prems have "calm g cfg (step g cfg wd a) as" by simp
  ultimately have "single_flight (run g cfg (step g cfg wd a) as)" by (rule Cons.IH)
  then show ?case by (simp add: run_def)
qed

lemma init_single_flight: "single_flight (init_world dev loaded)"
  by (simp add: single_flight_def init_world_def init_service_def)

text \<open>
  Where no \<^verbatim>\<open>stop_tts\<close> is handled while \<^verbatim>\<open>is_processing_tts\<close> is set, the guard does keep
  the driver loops apart: after every interleaving of inbound messages and task resumptions
  at most one task holds a request, and one does exactly when the flag is set; a driver
  task that starts while the flag is set returns at once and changes nothing; and a task
  that holds a request returns only with the queue empty and both flags reset.
\<close>

lemma single_flight_without_cancellation:
  assumes "calm g cfg (init_world dev loaded) as"
    and "wd = run g cfg (init_world dev loaded) as"
  shows "length (filter in_flight (tasks wd)) \<le> 1
       \<and> (is_processing_tts (svc wd) \<longleftrightarrow> (\<exists>t \<in> set (tasks wd). in_flight t))
       \<and> (is_processing_tts (svc wd) \<longrightarrow> resume cfg (svc wd) Created oc = ([], svc wd, Finished))
       \<and> (in_flight t \<and> resume cfg s t oc = (out, s2, Finished) \<longrightarrow>
            tts_queue s2 = [] \<and> \<not> is_processing_tts s2 \<and> current_tts_id s2 = None)"
proof -
  have sf: "single_flight wd"
    unfolding assms(2) using init_single_flight assms(1) by (rule run_single_flight)
  have a: "length (filter in_flight (tasks wd)) \<le> 1"
    using sf by (simp add: single_flight_def split: if_splits)
  have b: "is_processing_tts (svc wd) \<longleftrightarrow> (\<exists>t \<in> set (tasks wd). in_flight t)"
  proof
    assume "is_processing_tts (svc wd)"
    with sf have "length (filter in_flight (tasks wd)) = 1" by (simp add: single_flight_def)
    then have "filter in_flight (tasks wd) \<noteq> []" by auto
    then show "\<exists>t \<in> set (tasks wd). in_flight t" by (simp add: filter_empty_conv)
  next
    assume "\<exists>t \<in> set (tasks wd). in_flight t"
    then have "filter in_flight (tasks wd) \<noteq> []" by (simp add: filter_empty_conv)
    with sf show "is_processing_tts (svc wd)"
      by (auto simp: single_flight_def split: if_splits)
  qed
  have c: "is_processing_tts (svc wd) \<longrightarrow> resume cfg (svc wd) Created oc = ([], svc wd, Finished)"
    by (simp add: resume_def process_tts_queue_def)
  have d: "in_flight t \<and> resume cfg s t oc = (out, s2, Finished) \<longrightarrow>
            tts_queue s2 = [] \<and> \<not> is_processing_tts s2 \<and> current_tts_id s2 = None"
    using resume_in_flight_result [of t cfg s oc out s2 Finished]
    by (auto simp: loop_result_def)
  from a b c d show ?thesis by blast
qed

text \<open>
  C1. At most one request should be in flight at any time, and no second driver loop should
  start while one is running. The code evaluated at a cancellation followed by a new
  request has two: \<^verbatim>\<open>stop_tts\<close> clears \<^verbatim>\<open>is_processing_tts\<close> while the driver loop it
  interrupts is still suspended in its synthesis, so the guard of \<^verbatim>\<open>_process_tts_queue\<close>
  lets the task of the next enqueue in, and two requests are synthesized at once. Neither
  carries a message id, and the flag is set again with the current id \<open>None\<close>, so at its
  next check neither handler finds its request superseded. The run: connection 0 sends a streaming request;
  driver task 0 starts and awaits the first sentence (the outcome argument of a start is
  unused); connection 0 sends \<^verbatim>\<open>stop_tts\<close>; connection 1 sends a streaming request;
  driver task 1 starts and awaits its first sentence as well.
\<close>

theorem second_loop_after_stop:
  "tasks (run modem_ok SpeechConfig (init_world ''cpu'' True)
     [Receive 0 (synthesize_speech (str ''One. Two. Three.'') None True),
      Resume 0 GenFailed,
      Receive 0 stop_tts,
      Receive 1 (synthesize_speech (str ''One. Two. Three.'') None True),
      Resume 1 GenFailed])
   = [SynthStream 0 (str ''One. Two. Three.'') None [str ''One. Two.'', str ''Three.''] 0,
      SynthStream 1 (str ''One. Two. Three.'') None [str ''One. Two.'', str ''Three.''] 0]
   \<and> length (filter in_flight (tasks (run modem_ok SpeechConfig (init_world ''cpu'' True)
     [Receive 0 (synthesize_speech (str ''One. Two. Three.'') None True),
      Resume 0 GenFailed,
      Receive 0 stop_tts,
      Receive 1 (synthesize_speech (str ''One. Two. Three.'') None True),
      Resume 1 GenFailed]))) = 2
   \<and> is_processing_tts (svc (run modem_ok SpeechConfig (init_world ''cpu'' True)
     [Receive 0 (synthesize_speech (str ''One. Two. Three.'') None True),
      Resume 0 GenFailed,
      Receive 0 stop_tts,
      Receive 1 (synthesize_speech (str ''One. Two. Three.'') None True),
      Resume 1 GenFailed]))
   \<and> current_tts_id (svc (run modem_ok SpeechConfig (init_world ''cpu'' True)
     [Receive 0 (synthesize_speech (str ''One. Two. Three.'') None True),
      Resume 0 GenFailed,
      Receive 0 stop_tts,
      Receive 1 (synthesize_speech (str ''One. Two. Three.'') None True),
      Resume 1 GenFailed])) = None"
proof -
  define tx where "tx = str ''One. Two. Three.''"
  define ss where "ss = [str ''One. Two.'', str ''Three.'']"
  define pl where "pl = tts_payload tx None True"
  define r where "r = \<lparr>websocket = 1::nat, tts_text = tx, message_id = None, streaming = True\<rparr>"
  define s1 where "s1 =
    \<lparr>running = True, device = ''cpu'', whisper_model = True, tts_model = True,
     tts_queue = [], is_processing_tts = True, current_tts_id = None,
     last_message_data = (\<lambda>x. None)(0 := Some pl)\<rparr>"
  define s2 where "s2 = s1\<lparr>tts_queue := [], is_processing_tts := False, current_tts_id := None,
                last_message_data := (last_message_data s1)(0 := Some PayloadAbsent)\<rparr>"
  define s3 where "s3 = s2\<lparr>tts_queue := tts_queue s2 @ [r],
                last_message_data := (last_message_data s2)(1 := Some pl)\<rparr>"
  define s4 where "s4 = s3\<lparr>tts_queue := [], is_processing_tts := True,
                          current_tts_id := message_id r\<rparr>"
  define t0 where "t0 = SynthStream 0 tx None ss 0"
  define out1 where "out1 = [(0::nat, TtsStreamStart 2 tx None)]"
  define out2 where "out2 = out1 @ [(0, TtsStopped (str ''TTS processing stopped''))]"
  have ne: "tx \<noteq> []" by (simp add: tx_def)
  have w1: "run modem_ok SpeechConfig (init_world ''cpu'' True)
              [Receive 0 (synthesize_speech tx None True), Resume 0 GenFailed]
            = \<lparr>svc = s1, tasks = [t0], sent = out1\<rparr>"
    unfolding tx_def s1_def t0_def ss_def out1_def pl_def by (rule one_two_three_started)
  have w2: "step modem_ok SpeechConfig \<lparr>svc = s1, tasks = [t0], sent = out1\<rparr> (Receive 0 stop_tts)
            = \<lparr>svc = s2, tasks = [t0], sent = out2\<rparr>"
    unfolding s2_def out2_def by (rule receive_stop_tts) (simp add: s1_def)
  have w3: "step modem_ok SpeechConfig \<lparr>svc = s2, tasks = [t0], sent = out2\<rparr>
              (Receive 1 (synthesize_speech tx None True))
            = \<lparr>svc = s3, tasks = [t0] @ [Created], sent = out2\<rparr>"
    unfolding s3_def r_def pl_def
    by (rule receive_synthesize) (simp_all add: s2_def s1_def ne)
  have res: "resume SpeechConfig s3 Created GenFailed
             = ([(websocket r, TtsStreamStart (length ss) (tts_text r) (message_id r))],
                s3\<lparr>tts_queue := [], is_processing_tts := True, current_tts_id := message_id r\<rparr>,
                SynthStream (websocket r) (tts_text r) (message_id r) ss 0)"
    by (rule resume_created_streaming)
       (simp_all add: s3_def s2_def s1_def r_def tx_def ss_def split_one_two_three
          nonblank_one_two)
  have w4: "step modem_ok SpeechConfig \<lparr>svc = s3, tasks = [t0] @ [Created], sent = out2\<rparr>
              (Resume 1 GenFailed)
            = \<lparr>svc = s4, tasks = [t0, SynthStream 1 tx None ss 0],
               sent = out2 @ [(1, TtsStreamStart 2 tx None)]\<rparr>"
    by (simp add: res) (simp add: s4_def r_def ss_def)
  have rest: "run modem_ok SpeechConfig \<lparr>svc = s1, tasks = [t0], sent = out1\<rparr>
          [Receive 0 stop_tts, Receive 1 (synthesize_speech tx None True), Resume 1 GenFailed]
        = \<lparr>svc = s4, tasks = [t0, SynthStream 1 tx None ss 0],
           sent = out2 @ [(1, TtsStreamStart 2 tx None)]\<rparr>"
    by (simp only: run_Cons run_Nil w2 w3 w4)
  have "run modem_ok SpeechConfig (init_world ''cpu'' True)
          ([Receive 0 (synthesize_speech tx None True), Resume 0 GenFailed]
           @ [Receive 0 stop_tts, Receive 1 (synthesize_speech tx None True), Resume 1 GenFailed])
        = \<lparr>svc = s4, tasks = [t0, SynthStream 1 tx None ss 0],
           sent = out2 @ [(1, TtsStreamStart 2 tx None)]\<rparr>"
    by (simp only: run_append w1 rest)
  then have fin: "run modem_ok SpeechConfig (init_world ''cpu'' True)
          [Receive 0 (synthesize_speech tx None True), Resume 0 GenFailed,
           Receive 0 stop_tts, Receive 1 (synthesize_speech tx None True), Resume 1 GenFailed]
        = \<lparr>svc = s4, tasks = [t0, SynthStream 1 tx None ss 0],
           sent = out2 @ [(1, TtsStreamStart 2 tx None)]\<rparr>"
    by simp
  show ?thesis
    unfolding tx_def [symmetric] ss_def [symmetric] fin
    by (simp add: t0_def superseded_def s4_def r_def)
qed

end
